theory Spec2Isabelle
  imports Main "HOL-Library.Word" "HOL-Library.Sublist"
begin

section \<open>Strings, as Go has them\<close>

text \<open>
  A Go \<open>string\<close> is a sequence of bytes and \<open>len\<close> counts bytes, so it is modelled as
  \<^typ>\<open>string\<close> (a list of 8-bit \<^typ>\<open>char\<close>s); a Korean syllable is three elements
  of such a list.

  \<open>strings.TrimSpace\<close> removes leading and trailing white space as defined by Unicode.
  \<open>space_runes\<close> lists the UTF-8 encodings of the code points for which Go's
  \<open>unicode.IsSpace\<close> holds: the six ASCII ones, U+0085, U+00A0, U+1680, U+2000 to U+200A,
  U+2028, U+2029, U+202F, U+205F and U+3000.
\<close>

definition space_runes :: "string list" where
  "space_runes =
     [[CHR 0x09], [CHR 0x0A], [CHR 0x0B], [CHR 0x0C], [CHR 0x0D], [CHR 0x20],
      [CHR 0xC2, CHR 0x85], [CHR 0xC2, CHR 0xA0],
      [CHR 0xE1, CHR 0x9A, CHR 0x80],
      [CHR 0xE2, CHR 0x80, CHR 0x80], [CHR 0xE2, CHR 0x80, CHR 0x81],
      [CHR 0xE2, CHR 0x80, CHR 0x82], [CHR 0xE2, CHR 0x80, CHR 0x83],
      [CHR 0xE2, CHR 0x80, CHR 0x84], [CHR 0xE2, CHR 0x80, CHR 0x85],
      [CHR 0xE2, CHR 0x80, CHR 0x86], [CHR 0xE2, CHR 0x80, CHR 0x87],
      [CHR 0xE2, CHR 0x80, CHR 0x88], [CHR 0xE2, CHR 0x80, CHR 0x89],
      [CHR 0xE2, CHR 0x80, CHR 0x8A],
      [CHR 0xE2, CHR 0x80, CHR 0xA8], [CHR 0xE2, CHR 0x80, CHR 0xA9],
      [CHR 0xE2, CHR 0x80, CHR 0xAF],
      [CHR 0xE2, CHR 0x81, CHR 0x9F],
      [CHR 0xE3, CHR 0x80, CHR 0x80]]"

definition is_space_rune :: "string \<Rightarrow> bool" where
  "is_space_rune r = (r \<in> set space_runes)"

text \<open>\<open>TrimLeftFunc(s, unicode.IsSpace)\<close>: drop white-space runes from the front.\<close>

fun trim_left :: "string \<Rightarrow> string" where
  "trim_left (a # b # c # s) =
     (if is_space_rune [a] then trim_left (b # c # s)
      else if is_space_rune [a, b] then trim_left (c # s)
      else if is_space_rune [a, b, c] then trim_left s
      else a # b # c # s)"
| "trim_left [a, b] =
     (if is_space_rune [a] then trim_left [b]
      else if is_space_rune [a, b] then []
      else [a, b])"
| "trim_left [a] = (if is_space_rune [a] then [] else [a])"
| "trim_left [] = []"

text \<open>
  \<open>TrimRightFunc(s, unicode.IsSpace)\<close>, on the reversed string: the argument and the
  result of \<open>trim_right_rev\<close> are read from the last byte backwards.
\<close>

fun trim_right_rev :: "string \<Rightarrow> string" where
  "trim_right_rev (a # b # c # s) =
     (if is_space_rune [a] then trim_right_rev (b # c # s)
      else if is_space_rune [b, a] then trim_right_rev (c # s)
      else if is_space_rune [c, b, a] then trim_right_rev s
      else a # b # c # s)"
| "trim_right_rev [a, b] =
     (if is_space_rune [a] then trim_right_rev [b]
      else if is_space_rune [b, a] then []
      else [a, b])"
| "trim_right_rev [a] = (if is_space_rune [a] then [] else [a])"
| "trim_right_rev [] = []"

definition TrimSpace :: "string \<Rightarrow> string" where
  "TrimSpace s = rev (trim_right_rev (rev (trim_left s)))"

section \<open>The service: prefix extraction\<close>

text \<open>
  \<open>service.ExtractZipPrefix\<close>: \<open>zipCode = strings.TrimSpace(zipCode)\<close>, then
  \<open>zipCode[:3]\<close> when \<open>len(zipCode) >= 3\<close>, else the empty string.
\<close>

definition ExtractZipPrefix :: "string \<Rightarrow> string" where
  "ExtractZipPrefix zipCode =
     (let zipCode = TrimSpace zipCode
      in if length zipCode \<ge> 3 then take 3 zipCode else [])"

section \<open>Errors and records\<close>

text \<open>
  Go errors are values. \<open>Errorf\<close> is \<open>fmt.Errorf\<close> with a fixed message,
  \<open>Wrapf\<close> is \<open>fmt.Errorf("...: %w", err)\<close>, \<open>EOF\<close> is \<open>io.EOF\<close>, and
  \<open>External\<close> stands for an error raised outside this repository (the database
  driver, the operating system, the scanner, the CSV reader).
\<close>

datatype error = Errorf string | Wrapf string error | EOF | External string

text \<open>
  The record types of package \<open>postalcode\<close>, with the fields that the service, the
  importer and their tests read and write. \<open>ID\<close> is a Go \<open>uint\<close>, the optional
  numbers are \<open>*int\<close> (\<open>None\<close> is \<open>nil\<close>), \<open>RangeType\<close> is an \<open>int8\<close>.
  The fields of the land record carry the suffix \<open>_land\<close>.
\<close>

record PostalCodeRoad =
  ID :: nat
  ZipCode :: string
  ZipPrefix :: string
  SidoName :: string
  SidoNameEn :: string
  SigunguName :: string
  SigunguNameEn :: string
  EupmyeonName :: string
  EupmyeonNameEn :: string
  RoadName :: string
  RoadNameEn :: string
  IsUnderground :: bool
  StartBuildingMain :: int
  StartBuildingSub :: "int option"
  EndBuildingMain :: "int option"
  EndBuildingSub :: "int option"
  RangeType :: "8 word"

record PostalCodeLand =
  ID_land :: nat
  ZipCode_land :: string
  ZipPrefix_land :: string
  SidoName_land :: string
  SidoNameEn_land :: string
  SigunguName_land :: string
  SigunguNameEn_land :: string
  EupmyeondongName_land :: string
  EupmyeondongNameEn_land :: string
  RiName_land :: string
  HaengjeongdongName_land :: string
  IsMountain_land :: bool
  StartJibunMain_land :: int
  StartJibunSub_land :: "int option"
  EndJibunMain_land :: "int option"
  EndJibunSub_land :: "int option"

record ImportResult =
  TotalCount :: int
  ErrorCount :: int
  Duration :: string

section \<open>The repository interface\<close>

text \<open>
  \<open>repository.Repository\<close> is an interface; the service holds one and calls it. It is
  modelled as a record of operations over a database state \<open>'db\<close>. A query reads the
  state and returns Go's pair of a result and an error; a write returns the error and the
  new state, and \<open>Create\<close> and \<open>Update\<close>, which take a pointer, also return the record
  as the store left it (\<open>Create\<close> fills in the \<open>ID\<close>).
\<close>

record 'db Repository =
  FindByZipCode :: "string \<Rightarrow> 'db \<Rightarrow> PostalCodeRoad list \<times> error option"
  FindByZipPrefix ::
    "string \<Rightarrow> int \<Rightarrow> int \<Rightarrow> 'db \<Rightarrow> PostalCodeRoad list \<times> int \<times> error option"
  Create :: "PostalCodeRoad \<Rightarrow> 'db \<Rightarrow> error option \<times> PostalCodeRoad \<times> 'db"
  BatchCreate :: "PostalCodeRoad list \<Rightarrow> 'db \<Rightarrow> error option \<times> 'db"
  Update :: "PostalCodeRoad \<Rightarrow> 'db \<Rightarrow> error option \<times> PostalCodeRoad \<times> 'db"
  TruncateRoad :: "'db \<Rightarrow> error option \<times> 'db"
  BatchCreateLand :: "PostalCodeLand list \<Rightarrow> 'db \<Rightarrow> error option \<times> 'db"
  TruncateLand :: "'db \<Rightarrow> error option \<times> 'db"

section \<open>The service\<close>

text \<open>\<open>service.validate\<close>: the first failing check decides the error.\<close>

definition validate :: "PostalCodeRoad \<Rightarrow> error option" where
  "validate road =
     (if ZipCode road = [] then Some (Errorf ''zip code is required'')
      else if length (ZipCode road) \<noteq> 5 then Some (Errorf ''zip code must be 5 digits'')
      else if SidoName road = [] then Some (Errorf ''sido name is required'')
      else if RoadName road = [] then Some (Errorf ''road name is required'')
      else None)"

definition validateLand :: "PostalCodeLand \<Rightarrow> error option" where
  "validateLand land =
     (if ZipCode_land land = [] then Some (Errorf ''zip code is required'')
      else if length (ZipCode_land land) \<noteq> 5 then Some (Errorf ''zip code must be 5 digits'')
      else if SidoName_land land = [] then Some (Errorf ''sido name is required'')
      else if EupmyeondongName_land land = []
        then Some (Errorf ''eupmyeondong name is required'')
      else None)"

definition GetByZipCode ::
  "'db Repository \<Rightarrow> string \<Rightarrow> 'db \<Rightarrow> PostalCodeRoad list \<times> error option" where
  "GetByZipCode repo zipCode db =
     (if zipCode = [] then ([], Some (Errorf ''zip code is required''))
      else if length zipCode \<noteq> 5 then ([], Some (Errorf ''zip code must be 5 digits''))
      else FindByZipCode repo zipCode db)"

definition GetByZipPrefix ::
  "'db Repository \<Rightarrow> string \<Rightarrow> int \<Rightarrow> int \<Rightarrow> 'db
     \<Rightarrow> PostalCodeRoad list \<times> int \<times> error option" where
  "GetByZipPrefix repo zipPrefix limit offset db =
     (if zipPrefix = [] then ([], 0, Some (Errorf ''zip prefix is required''))
      else if length zipPrefix \<noteq> 3 then ([], 0, Some (Errorf ''zip prefix must be 3 digits''))
      else
        let limit = (if limit \<le> 0 \<or> limit > 100 then 10 else limit);
            offset = (if offset < 0 then 0 else offset)
        in FindByZipPrefix repo zipPrefix limit offset db)"

text \<open>
  The scan of \<open>Upsert\<close> over the rows that \<open>FindByZipCode\<close> returned: the first row
  whose four fields equal the record's gives its \<open>ID\<close> to the record, which is then
  updated; when the loop ends without a match the record is created.
\<close>

fun upsert_scan ::
  "'db Repository \<Rightarrow> PostalCodeRoad list \<Rightarrow> PostalCodeRoad \<Rightarrow> 'db
     \<Rightarrow> error option \<times> PostalCodeRoad \<times> 'db" where
  "upsert_scan repo [] road db = Create repo road db"
| "upsert_scan repo (e # existing) road db =
     (if SidoName e = SidoName road \<and> SigunguName e = SigunguName road
         \<and> RoadName e = RoadName road \<and> StartBuildingMain e = StartBuildingMain road
      then Update repo (road\<lparr>ID := ID e\<rparr>) db
      else upsert_scan repo existing road db)"

text \<open>
  \<open>service.Upsert\<close>. The record is passed by pointer, so the result carries the record
  as the call leaves it, next to the error and the new database state.
\<close>

definition Upsert ::
  "'db Repository \<Rightarrow> PostalCodeRoad \<Rightarrow> 'db \<Rightarrow> error option \<times> PostalCodeRoad \<times> 'db" where
  "Upsert repo road db =
     (case validate road of
        Some err \<Rightarrow> (Some err, road, db)
      | None \<Rightarrow>
          let road = (if ZipPrefix road = []
                      then road\<lparr>ZipPrefix := ExtractZipPrefix (ZipCode road)\<rparr> else road)
          in if ID road > 0 then Update repo road db
             else (case FindByZipCode repo (ZipCode road) db of
                     (existing, Some err) \<Rightarrow> (Some err, road, db)
                   | (existing, None) \<Rightarrow> upsert_scan repo existing road db))"

text \<open>
  The validation loop of \<open>BatchUpsert\<close>, with its two accumulators: the valid records
  (prefix derived when empty) and the diagnostics, one per rejected record, holding what
  the message is formatted from (index, zip code, error).
\<close>

fun batch_validate ::
  "PostalCodeRoad list \<Rightarrow> nat \<Rightarrow> PostalCodeRoad list \<Rightarrow> (nat \<times> string \<times> error) list
     \<Rightarrow> PostalCodeRoad list \<times> (nat \<times> string \<times> error) list" where
  "batch_validate [] i validRoads validationErrors = (validRoads, validationErrors)"
| "batch_validate (road # roads) i validRoads validationErrors =
     (case validate road of
        Some err \<Rightarrow>
          batch_validate roads (i + 1) validRoads (validationErrors @ [(i, ZipCode road, err)])
      | None \<Rightarrow>
          let road = (if ZipPrefix road = []
                      then road\<lparr>ZipPrefix := ExtractZipPrefix (ZipCode road)\<rparr> else road)
          in batch_validate roads (i + 1) (validRoads @ [road]) validationErrors)"

definition BatchUpsert ::
  "'db Repository \<Rightarrow> PostalCodeRoad list \<Rightarrow> 'db \<Rightarrow> error option \<times> 'db" where
  "BatchUpsert repo roads db =
     (case batch_validate roads 0 [] [] of
        (validRoads, validationErrors) \<Rightarrow>
          if length validRoads = 0 then (Some (Errorf ''no valid records in batch''), db)
          else BatchCreate repo validRoads db)"

fun batch_validate_land ::
  "PostalCodeLand list \<Rightarrow> nat \<Rightarrow> PostalCodeLand list \<Rightarrow> (nat \<times> string \<times> error) list
     \<Rightarrow> PostalCodeLand list \<times> (nat \<times> string \<times> error) list" where
  "batch_validate_land [] i validLands validationErrors = (validLands, validationErrors)"
| "batch_validate_land (land # lands) i validLands validationErrors =
     (case validateLand land of
        Some err \<Rightarrow>
          batch_validate_land lands (i + 1) validLands
            (validationErrors @ [(i, ZipCode_land land, err)])
      | None \<Rightarrow>
          let land = (if ZipPrefix_land land = []
                      then land\<lparr>ZipPrefix_land := ExtractZipPrefix (ZipCode_land land)\<rparr>
                      else land)
          in batch_validate_land lands (i + 1) (validLands @ [land]) validationErrors)"

definition BatchUpsertLand ::
  "'db Repository \<Rightarrow> PostalCodeLand list \<Rightarrow> 'db \<Rightarrow> error option \<times> 'db" where
  "BatchUpsertLand repo lands db =
     (case batch_validate_land lands 0 [] [] of
        (validLands, validationErrors) \<Rightarrow>
          if length validLands = 0 then (Some (Errorf ''no valid records in batch''), db)
          else BatchCreateLand repo validLands db)"

section \<open>The importer: parsing\<close>

text \<open>
  \<open>strconv.Atoi\<close> on a 64-bit platform: an optional sign, then at least one decimal
  digit and nothing else; a value outside the range of \<open>int\<close> is an error. The importer
  uses the value only when the error is \<open>nil\<close>, so the result is an option.
\<close>

definition is_digit :: "char \<Rightarrow> bool" where
  "is_digit ch = (48 \<le> (of_char ch :: nat) \<and> (of_char ch :: nat) \<le> 57)"

fun atoi_digits :: "string \<Rightarrow> int \<Rightarrow> int option" where
  "atoi_digits [] n = Some n"
| "atoi_digits (ch # s) n =
     (if is_digit ch then atoi_digits s (n * 10 + (int (of_char ch) - 48)) else None)"

definition Atoi :: "string \<Rightarrow> int option" where
  "Atoi s0 =
     (case s0 of
        [] \<Rightarrow> None
      | c # cs \<Rightarrow>
          let s = (if c = CHR ''-'' \<or> c = CHR ''+'' then cs else s0)
          in if s = [] then None
             else (case atoi_digits s 0 of
                     None \<Rightarrow> None
                   | Some n \<Rightarrow>
                       let v = (if c = CHR ''-'' then - n else n)
                       in if v < - (2 ^ 63) \<or> v > 2 ^ 63 - 1 then None else Some v))"

text \<open>
  The body of the loop of \<open>ParseFile\<close> for a row that has at least 15 fields. The
  record is built from the trimmed columns; then come six conditional assignments, in
  the order of the source, each written as a function from the record to the record: the
  flag is set when its column is \<open>1\<close>, and a number is stored only when its column is
  not empty (for a sub-number: neither empty nor \<open>0\<close>) and \<open>Atoi\<close> accepts it.
\<close>

definition set_IsUnderground :: "string list \<Rightarrow> PostalCodeRoad \<Rightarrow> PostalCodeRoad" where
  "set_IsUnderground row road =
     (let underground = TrimSpace (row ! 9)
      in if underground = ''1'' then road\<lparr>IsUnderground := True\<rparr> else road)"

definition set_StartBuildingMain :: "string list \<Rightarrow> PostalCodeRoad \<Rightarrow> PostalCodeRoad" where
  "set_StartBuildingMain row road =
     (let startMain = TrimSpace (row ! 10)
      in if startMain \<noteq> [] then
           (case Atoi startMain of
              Some val \<Rightarrow> road\<lparr>StartBuildingMain := val\<rparr> | None \<Rightarrow> road)
         else road)"

definition set_StartBuildingSub :: "string list \<Rightarrow> PostalCodeRoad \<Rightarrow> PostalCodeRoad" where
  "set_StartBuildingSub row road =
     (let startSub = TrimSpace (row ! 11)
      in if startSub \<noteq> [] \<and> startSub \<noteq> ''0'' then
           (case Atoi startSub of
              Some val \<Rightarrow> road\<lparr>StartBuildingSub := Some val\<rparr> | None \<Rightarrow> road)
         else road)"

definition set_EndBuildingMain :: "string list \<Rightarrow> PostalCodeRoad \<Rightarrow> PostalCodeRoad" where
  "set_EndBuildingMain row road =
     (let endMain = TrimSpace (row ! 12)
      in if endMain \<noteq> [] then
           (case Atoi endMain of
              Some val \<Rightarrow> road\<lparr>EndBuildingMain := Some val\<rparr> | None \<Rightarrow> road)
         else road)"

definition set_EndBuildingSub :: "string list \<Rightarrow> PostalCodeRoad \<Rightarrow> PostalCodeRoad" where
  "set_EndBuildingSub row road =
     (let endSub = TrimSpace (row ! 13)
      in if endSub \<noteq> [] \<and> endSub \<noteq> ''0'' then
           (case Atoi endSub of
              Some val \<Rightarrow> road\<lparr>EndBuildingSub := Some val\<rparr> | None \<Rightarrow> road)
         else road)"

definition set_RangeType :: "string list \<Rightarrow> PostalCodeRoad \<Rightarrow> PostalCodeRoad" where
  "set_RangeType row road =
     (let rangeType = TrimSpace (row ! 14)
      in if rangeType \<noteq> [] then
           (case Atoi rangeType of
              Some val \<Rightarrow> road\<lparr>RangeType := word_of_int val\<rparr> | None \<Rightarrow> road)
         else road)"

definition parse_road :: "string list \<Rightarrow> PostalCodeRoad" where
  "parse_road row =
     (let zipCode = TrimSpace (row ! 0);
          zipPrefix = (if length zipCode \<ge> 3 then take 3 zipCode else []);
          road = \<lparr>ID = 0, ZipCode = zipCode, ZipPrefix = zipPrefix,
                  SidoName = TrimSpace (row ! 1), SidoNameEn = TrimSpace (row ! 2),
                  SigunguName = TrimSpace (row ! 3), SigunguNameEn = TrimSpace (row ! 4),
                  EupmyeonName = TrimSpace (row ! 5), EupmyeonNameEn = TrimSpace (row ! 6),
                  RoadName = TrimSpace (row ! 7), RoadNameEn = TrimSpace (row ! 8),
                  IsUnderground = False, StartBuildingMain = 0, StartBuildingSub = None,
                  EndBuildingMain = None, EndBuildingSub = None, RangeType = 0\<rparr>;
          road = set_IsUnderground row road;
          road = set_StartBuildingMain row road;
          road = set_StartBuildingSub row road;
          road = set_EndBuildingMain row road;
          road = set_EndBuildingSub row road;
          road = set_RangeType row road
      in road)"

text \<open>The same for a row of \<open>ParseLandFile\<close> that has at least 14 fields.\<close>

definition set_IsMountain :: "string list \<Rightarrow> PostalCodeLand \<Rightarrow> PostalCodeLand" where
  "set_IsMountain row land =
     (let mountain = TrimSpace (row ! 8)
      in if mountain = ''1'' then land\<lparr>IsMountain_land := True\<rparr> else land)"

definition set_StartJibunMain :: "string list \<Rightarrow> PostalCodeLand \<Rightarrow> PostalCodeLand" where
  "set_StartJibunMain row land =
     (let startMain = TrimSpace (row ! 10)
      in if startMain \<noteq> [] then
           (case Atoi startMain of
              Some val \<Rightarrow> land\<lparr>StartJibunMain_land := val\<rparr> | None \<Rightarrow> land)
         else land)"

definition set_StartJibunSub :: "string list \<Rightarrow> PostalCodeLand \<Rightarrow> PostalCodeLand" where
  "set_StartJibunSub row land =
     (let startSub = TrimSpace (row ! 11)
      in if startSub \<noteq> [] \<and> startSub \<noteq> ''0'' then
           (case Atoi startSub of
              Some val \<Rightarrow> land\<lparr>StartJibunSub_land := Some val\<rparr> | None \<Rightarrow> land)
         else land)"

definition set_EndJibunMain :: "string list \<Rightarrow> PostalCodeLand \<Rightarrow> PostalCodeLand" where
  "set_EndJibunMain row land =
     (let endMain = TrimSpace (row ! 12)
      in if endMain \<noteq> [] then
           (case Atoi endMain of
              Some val \<Rightarrow> land\<lparr>EndJibunMain_land := Some val\<rparr> | None \<Rightarrow> land)
         else land)"

definition set_EndJibunSub :: "string list \<Rightarrow> PostalCodeLand \<Rightarrow> PostalCodeLand" where
  "set_EndJibunSub row land =
     (let endSub = TrimSpace (row ! 13)
      in if endSub \<noteq> [] \<and> endSub \<noteq> ''0'' then
           (case Atoi endSub of
              Some val \<Rightarrow> land\<lparr>EndJibunSub_land := Some val\<rparr> | None \<Rightarrow> land)
         else land)"

definition parse_land :: "string list \<Rightarrow> PostalCodeLand" where
  "parse_land row =
     (let zipCode = TrimSpace (row ! 0);
          zipPrefix = (if length zipCode \<ge> 3 then take 3 zipCode else []);
          land = \<lparr>ID_land = 0, ZipCode_land = zipCode, ZipPrefix_land = zipPrefix,
                  SidoName_land = TrimSpace (row ! 1), SidoNameEn_land = TrimSpace (row ! 2),
                  SigunguName_land = TrimSpace (row ! 3),
                  SigunguNameEn_land = TrimSpace (row ! 4),
                  EupmyeondongName_land = TrimSpace (row ! 5),
                  EupmyeondongNameEn_land = TrimSpace (row ! 6),
                  RiName_land = TrimSpace (row ! 7),
                  HaengjeongdongName_land = TrimSpace (row ! 9),
                  IsMountain_land = False, StartJibunMain_land = 0,
                  StartJibunSub_land = None, EndJibunMain_land = None,
                  EndJibunSub_land = None\<rparr>;
          land = set_IsMountain row land;
          land = set_StartJibunMain row land;
          land = set_StartJibunSub row land;
          land = set_EndJibunMain row land;
          land = set_EndJibunSub row land
      in land)"

section \<open>The importer: files\<close>

text \<open>
  The importer reads a file twice, through two libraries: \<open>bufio.Scanner\<close> to count
  lines, and \<open>encoding/csv\<close> (comma \<open>|\<close>, lazy quotes) to read rows. A file is
  described by what these report: the lines the scanner yields and the error it ends
  with (\<open>scanner.Err()\<close>), and the results of the successive calls of \<open>reader.Read()\<close>
  up to \<open>io.EOF\<close>, each a row of fields or an error (\<open>Read\<close> reports a row whose number
  of fields differs from the header's as an error too). A path either opens or gives the
  error of \<open>os.Open\<close>.
\<close>

datatype read_result = Fields "string list" | ReadError error

record input_file =
  scan_lines :: "string list"
  scan_err :: "error option"
  csv_reads :: "read_result list"

type_synonym filesystem = "string \<Rightarrow> error + input_file"

text \<open>The structural errors that \<open>ParseFile\<close> collects, with the data of their message.\<close>

datatype parse_error = CsvError int error | TooFewFields int nat

text \<open>The counting loop of \<open>countDataLines\<close>: the first line is skipped.\<close>

fun count_lines :: "string list \<Rightarrow> bool \<Rightarrow> int \<Rightarrow> int" where
  "count_lines [] firstLine lineCount = lineCount"
| "count_lines (l # ls) firstLine lineCount =
     (if firstLine then count_lines ls False lineCount
      else count_lines ls False (lineCount + 1))"

definition countDataLines :: "filesystem \<Rightarrow> string \<Rightarrow> int \<times> error option" where
  "countDataLines fs filePath =
     (case fs filePath of
        Inl err \<Rightarrow> (0, Some err)
      | Inr f \<Rightarrow>
          let lineCount = count_lines (scan_lines f) True 0
          in (case scan_err f of Some err \<Rightarrow> (0, Some err) | None \<Rightarrow> (lineCount, None)))"

text \<open>The reading loop of \<open>ParseFile\<close>, after the header.\<close>

fun parse_rows ::
  "read_result list \<Rightarrow> int \<Rightarrow> PostalCodeRoad list \<Rightarrow> parse_error list
     \<Rightarrow> PostalCodeRoad list \<times> parse_error list" where
  "parse_rows [] lineNumber roads parseErrors = (roads, parseErrors)"
| "parse_rows (ReadError err # rest) lineNumber roads parseErrors =
     parse_rows rest (lineNumber + 1) roads (parseErrors @ [CsvError lineNumber err])"
| "parse_rows (Fields row # rest) lineNumber roads parseErrors =
     (if length row < 15
      then parse_rows rest (lineNumber + 1) roads
             (parseErrors @ [TooFewFields lineNumber (length row)])
      else parse_rows rest (lineNumber + 1) (roads @ [parse_road row]) parseErrors)"

definition ParseFile :: "filesystem \<Rightarrow> string \<Rightarrow> PostalCodeRoad list \<times> error option" where
  "ParseFile fs filePath =
     (case fs filePath of
        Inl err \<Rightarrow> ([], Some (Wrapf ''failed to open file'' err))
      | Inr f \<Rightarrow>
          (case csv_reads f of
             [] \<Rightarrow> ([], Some (Wrapf ''failed to read header'' EOF))
           | ReadError err # rest \<Rightarrow> ([], Some (Wrapf ''failed to read header'' err))
           | Fields header # rest \<Rightarrow> (fst (parse_rows rest 1 [] []), None)))"

fun parse_land_rows ::
  "read_result list \<Rightarrow> int \<Rightarrow> PostalCodeLand list \<Rightarrow> parse_error list
     \<Rightarrow> PostalCodeLand list \<times> parse_error list" where
  "parse_land_rows [] lineNumber lands parseErrors = (lands, parseErrors)"
| "parse_land_rows (ReadError err # rest) lineNumber lands parseErrors =
     parse_land_rows rest (lineNumber + 1) lands (parseErrors @ [CsvError lineNumber err])"
| "parse_land_rows (Fields row # rest) lineNumber lands parseErrors =
     (if length row < 14
      then parse_land_rows rest (lineNumber + 1) lands
             (parseErrors @ [TooFewFields lineNumber (length row)])
      else parse_land_rows rest (lineNumber + 1) (lands @ [parse_land row]) parseErrors)"

definition ParseLandFile :: "filesystem \<Rightarrow> string \<Rightarrow> PostalCodeLand list \<times> error option" where
  "ParseLandFile fs filePath =
     (case fs filePath of
        Inl err \<Rightarrow> ([], Some (Wrapf ''failed to open file'' err))
      | Inr f \<Rightarrow>
          (case csv_reads f of
             [] \<Rightarrow> ([], Some (Wrapf ''failed to read header'' EOF))
           | ReadError err # rest \<Rightarrow> ([], Some (Wrapf ''failed to read header'' err))
           | Fields header # rest \<Rightarrow> (fst (parse_land_rows rest 1 [] []), None)))"

section \<open>The importer: batches\<close>

text \<open>
  The batch loop of \<open>ImportFromFile\<close>: \<open>for i := 0; i < len(roads); i += batchSize\<close>.
  It threads the database state through the calls of \<open>BatchUpsert\<close>, keeps the two
  counters, and records the calls of the progress function (\<open>progressFn\<close> is
  \<open>True\<close> when one was given, \<open>False\<close> for \<open>nil\<close>). \<open>ImportFromFile\<close> enters the loop
  with a positive \<open>batchSize\<close> only; the loop's test repeats that, which makes the
  function total.
\<close>

function import_batches ::
  "'db Repository \<Rightarrow> PostalCodeRoad list \<Rightarrow> nat \<Rightarrow> bool \<Rightarrow> nat \<Rightarrow> int \<Rightarrow> int
     \<Rightarrow> (int \<times> int) list \<Rightarrow> 'db \<Rightarrow> int \<times> int \<times> (int \<times> int) list \<times> 'db" where
  "import_batches repo roads batchSize progressFn i totalCount errorCount calls db =
     (if i < length roads \<and> 0 < batchSize then
        let end_i = (if i + batchSize > length roads then length roads else i + batchSize);
            batch = take (end_i - i) (drop i roads);
            res = BatchUpsert repo batch db;
            errorCount' = (if fst res \<noteq> None then errorCount + int (length batch)
                           else errorCount);
            totalCount' = (if fst res \<noteq> None then totalCount
                           else totalCount + int (length batch));
            calls' = (if progressFn
                      then calls @ [(int i + int (length batch), int (length roads))]
                      else calls)
        in import_batches repo roads batchSize progressFn (i + batchSize)
             totalCount' errorCount' calls' (snd res)
      else (totalCount, errorCount, calls, db))"
  by pat_completeness auto
termination
  by (relation "measure (\<lambda>(repo, roads, batchSize, progressFn, i, rest). length roads - i)")
     auto

function import_land_batches ::
  "'db Repository \<Rightarrow> PostalCodeLand list \<Rightarrow> nat \<Rightarrow> bool \<Rightarrow> nat \<Rightarrow> int \<Rightarrow> int
     \<Rightarrow> (int \<times> int) list \<Rightarrow> 'db \<Rightarrow> int \<times> int \<times> (int \<times> int) list \<times> 'db" where
  "import_land_batches repo lands batchSize progressFn i totalCount errorCount calls db =
     (if i < length lands \<and> 0 < batchSize then
        let end_i = (if i + batchSize > length lands then length lands else i + batchSize);
            batch = take (end_i - i) (drop i lands);
            res = BatchUpsertLand repo batch db;
            errorCount' = (if fst res \<noteq> None then errorCount + int (length batch)
                           else errorCount);
            totalCount' = (if fst res \<noteq> None then totalCount
                           else totalCount + int (length batch));
            calls' = (if progressFn
                      then calls @ [(int i + int (length batch), int (length lands))]
                      else calls)
        in import_land_batches repo lands batchSize progressFn (i + batchSize)
             totalCount' errorCount' calls' (snd res)
      else (totalCount, errorCount, calls, db))"
  by pat_completeness auto
termination
  by (relation "measure (\<lambda>(repo, lands, batchSize, progressFn, i, rest). length lands - i)")
     auto

text \<open>
  \<open>ImportFromFile\<close>, in the order of its statements: the default batch size, the
  truncation, the line count, the parse, the batches, the result. \<open>elapsed\<close> is the
  text of \<open>time.Since(startTime)\<close>. The result is Go's pair of a result pointer
  (\<open>None\<close> is \<open>nil\<close>) and an error, with the calls made to the progress function and
  the database state the call leaves.
\<close>

definition ImportFromFile ::
  "'db Repository \<Rightarrow> filesystem \<Rightarrow> string \<Rightarrow> string \<Rightarrow> int \<Rightarrow> bool \<Rightarrow> 'db
     \<Rightarrow> ImportResult option \<times> error option \<times> (int \<times> int) list \<times> 'db" where
  "ImportFromFile repo fs elapsed filePath batchSize progressFn db =
     (let batchSize = (if batchSize \<le> 0 then 1000 else batchSize)
      in case TruncateRoad repo db of
           (Some err, db1) \<Rightarrow>
             (None, Some (Wrapf ''failed to truncate existing data'' err), [], db1)
         | (None, db1) \<Rightarrow>
             (case countDataLines fs filePath of
                (totalLines, Some err) \<Rightarrow>
                  (None, Some (Wrapf ''failed to count lines'' err), [], db1)
              | (totalLines, None) \<Rightarrow>
                  (case ParseFile fs filePath of
                     (roads, Some err) \<Rightarrow>
                       (None, Some (Wrapf ''file parsing failed'' err), [], db1)
                   | (roads, None) \<Rightarrow>
                       (case import_batches repo roads (nat batchSize) progressFn 0 0 0 [] db1 of
                          (totalCount, errorCount, calls, db2) \<Rightarrow>
                            let parseErrors = totalLines - int (length roads);
                                errorCount = errorCount + parseErrors
                            in (Some \<lparr>TotalCount = totalCount, ErrorCount = errorCount,
                                       Duration = elapsed\<rparr>, None, calls, db2)))))"

definition ImportLandFromFile ::
  "'db Repository \<Rightarrow> filesystem \<Rightarrow> string \<Rightarrow> string \<Rightarrow> int \<Rightarrow> bool \<Rightarrow> 'db
     \<Rightarrow> ImportResult option \<times> error option \<times> (int \<times> int) list \<times> 'db" where
  "ImportLandFromFile repo fs elapsed filePath batchSize progressFn db =
     (let batchSize = (if batchSize \<le> 0 then 1000 else batchSize)
      in case TruncateLand repo db of
           (Some err, db1) \<Rightarrow>
             (None, Some (Wrapf ''failed to truncate existing data'' err), [], db1)
         | (None, db1) \<Rightarrow>
             (case countDataLines fs filePath of
                (totalLines, Some err) \<Rightarrow>
                  (None, Some (Wrapf ''failed to count lines'' err), [], db1)
              | (totalLines, None) \<Rightarrow>
                  (case ParseLandFile fs filePath of
                     (lands, Some err) \<Rightarrow>
                       (None, Some (Wrapf ''file parsing failed'' err), [], db1)
                   | (lands, None) \<Rightarrow>
                       (case import_land_batches repo lands (nat batchSize) progressFn
                               0 0 0 [] db1 of
                          (totalCount, errorCount, calls, db2) \<Rightarrow>
                            let parseErrors = totalLines - int (length lands);
                                errorCount = errorCount + parseErrors
                            in (Some \<lparr>TotalCount = totalCount, ErrorCount = errorCount,
                                       Duration = elapsed\<rparr>, None, calls, db2)))))"

section \<open>Two implementations of the interface\<close>

text \<open>
  \<open>spy repo\<close> behaves as \<open>repo\<close> and keeps, next to its state, the list of road
  records that were handed to a write (\<open>Create\<close>, \<open>Update\<close>, \<open>BatchCreate\<close>), in the
  order of the calls.
\<close>

definition spy :: "'db Repository \<Rightarrow> ('db \<times> PostalCodeRoad list) Repository" where
  "spy repo =
     \<lparr>FindByZipCode = (\<lambda>zipCode (db, written). FindByZipCode repo zipCode db),
      FindByZipPrefix = (\<lambda>zipPrefix limit offset (db, written).
         FindByZipPrefix repo zipPrefix limit offset db),
      Create = (\<lambda>road (db, written).
         case Create repo road db of (err, road', db') \<Rightarrow> (err, road', (db', written @ [road]))),
      BatchCreate = (\<lambda>roads (db, written).
         case BatchCreate repo roads db of (err, db') \<Rightarrow> (err, (db', written @ roads))),
      Update = (\<lambda>road (db, written).
         case Update repo road db of (err, road', db') \<Rightarrow> (err, road', (db', written @ [road]))),
      TruncateRoad = (\<lambda>(db, written).
         case TruncateRoad repo db of (err, db') \<Rightarrow> (err, (db', written))),
      BatchCreateLand = (\<lambda>lands (db, written).
         case BatchCreateLand repo lands db of (err, db') \<Rightarrow> (err, (db', written))),
      TruncateLand = (\<lambda>(db, written).
         case TruncateLand repo db of (err, db') \<Rightarrow> (err, (db', written)))\<rparr>"

text \<open>
  An in-memory database with the two tables and their identifier sequences, and the
  repository over it. It does what \<open>gormRepository\<close> asks of the database: a query
  filters on the column; \<open>Create\<close> inserts with the next identifier and fails on a row
  with the same unique key; \<open>Save\<close> replaces the row with the record's identifier
  (inserting when there is none) and fails when another row has the record's unique key;
  a batch insert with the conflict clause replaces the row that has the same unique key,
  keeping that row's identifier and using up one value of the sequence, and otherwise
  inserts, with the record's identifier when it has one and the next one when it has
  none; truncation empties the table and resets the sequence. Identifiers that a caller
  supplies are taken to be unused.
\<close>

record tables =
  road_rows :: "PostalCodeRoad list"
  road_seq :: nat
  land_rows :: "PostalCodeLand list"
  land_seq :: nat

definition same_road_key :: "PostalCodeRoad \<Rightarrow> PostalCodeRoad \<Rightarrow> bool" where
  "same_road_key a b =
     (ZipCode a = ZipCode b \<and> SidoName a = SidoName b \<and> SigunguName a = SigunguName b
      \<and> RoadName a = RoadName b \<and> StartBuildingMain a = StartBuildingMain b)"

definition same_land_key :: "PostalCodeLand \<Rightarrow> PostalCodeLand \<Rightarrow> bool" where
  "same_land_key a b =
     (ZipCode_land a = ZipCode_land b \<and> SidoName_land a = SidoName_land b
      \<and> SigunguName_land a = SigunguName_land b
      \<and> EupmyeondongName_land a = EupmyeondongName_land b
      \<and> RiName_land a = RiName_land b \<and> IsMountain_land a = IsMountain_land b
      \<and> StartJibunMain_land a = StartJibunMain_land b)"

definition mem_Create :: "PostalCodeRoad \<Rightarrow> tables \<Rightarrow> error option \<times> PostalCodeRoad \<times> tables" where
  "mem_Create road db =
     (if list_ex (same_road_key road) (road_rows db)
      then (Some (External ''UNIQUE constraint failed''), road, db)
      else let road' = road\<lparr>ID := road_seq db + 1\<rparr>
           in (None, road',
               db\<lparr>road_rows := road_rows db @ [road'], road_seq := road_seq db + 1\<rparr>))"

definition mem_Update :: "PostalCodeRoad \<Rightarrow> tables \<Rightarrow> error option \<times> PostalCodeRoad \<times> tables" where
  "mem_Update road db =
     (if list_ex (\<lambda>r. ID r \<noteq> ID road \<and> same_road_key road r) (road_rows db)
      then (Some (External ''UNIQUE constraint failed''), road, db)
      else if list_ex (\<lambda>r. ID r = ID road) (road_rows db)
      then (None, road,
            db\<lparr>road_rows := map (\<lambda>r. if ID r = ID road then road else r) (road_rows db)\<rparr>)
      else (None, road,
            db\<lparr>road_rows := road_rows db @ [road], road_seq := max (road_seq db) (ID road)\<rparr>))"

fun mem_upsert_roads :: "PostalCodeRoad list \<Rightarrow> tables \<Rightarrow> tables" where
  "mem_upsert_roads [] db = db"
| "mem_upsert_roads (road # roads) db =
     (if list_ex (same_road_key road) (road_rows db)
      then mem_upsert_roads roads
             (db\<lparr>road_rows :=
                   map (\<lambda>r. if same_road_key road r then road\<lparr>ID := ID r\<rparr> else r)
                     (road_rows db),
                  road_seq := road_seq db + 1\<rparr>)
      else if ID road = 0
      then mem_upsert_roads roads
             (db\<lparr>road_rows := road_rows db @ [road\<lparr>ID := road_seq db + 1\<rparr>],
                  road_seq := road_seq db + 1\<rparr>)
      else mem_upsert_roads roads
             (db\<lparr>road_rows := road_rows db @ [road],
                  road_seq := max (road_seq db) (ID road)\<rparr>))"

fun mem_upsert_lands :: "PostalCodeLand list \<Rightarrow> tables \<Rightarrow> tables" where
  "mem_upsert_lands [] db = db"
| "mem_upsert_lands (land # lands) db =
     (if list_ex (same_land_key land) (land_rows db)
      then mem_upsert_lands lands
             (db\<lparr>land_rows :=
                   map (\<lambda>r. if same_land_key land r then land\<lparr>ID_land := ID_land r\<rparr> else r)
                     (land_rows db),
                  land_seq := land_seq db + 1\<rparr>)
      else if ID_land land = 0
      then mem_upsert_lands lands
             (db\<lparr>land_rows := land_rows db @ [land\<lparr>ID_land := land_seq db + 1\<rparr>],
                  land_seq := land_seq db + 1\<rparr>)
      else mem_upsert_lands lands
             (db\<lparr>land_rows := land_rows db @ [land],
                  land_seq := max (land_seq db) (ID_land land)\<rparr>))"

definition mem_repo :: "tables Repository" where
  "mem_repo =
     \<lparr>FindByZipCode = (\<lambda>zipCode db. (filter (\<lambda>r. ZipCode r = zipCode) (road_rows db), None)),
      FindByZipPrefix = (\<lambda>zipPrefix limit offset db.
         let found = filter (\<lambda>r. ZipPrefix r = zipPrefix) (road_rows db);
             skipped = (if offset > 0 then drop (nat offset) found else found);
             page = (if limit > 0 then take (nat limit) skipped else skipped)
         in (page, int (length found), None)),
      Create = mem_Create,
      BatchCreate = (\<lambda>roads db. (None, mem_upsert_roads roads db)),
      Update = mem_Update,
      TruncateRoad = (\<lambda>db. (None, db\<lparr>road_rows := [], road_seq := 0\<rparr>)),
      BatchCreateLand = (\<lambda>lands db. (None, mem_upsert_lands lands db)),
      TruncateLand = (\<lambda>db. (None, db\<lparr>land_rows := [], land_seq := 0\<rparr>))\<rparr>"

definition empty_tables :: tables where
  "empty_tables = \<lparr>road_rows = [], road_seq = 0, land_rows = [], land_seq = 0\<rparr>"

text \<open>The same repository when the database refuses every batch insert.\<close>

definition refusing_repo :: "tables Repository" where
  "refusing_repo =
     mem_repo\<lparr>BatchCreate := (\<lambda>roads db. (Some (External ''connection refused''), db)),
              BatchCreateLand := (\<lambda>lands db. (Some (External ''connection refused''), db))\<rparr>"

section \<open>Sample data\<close>

text \<open>A record with the given zip code, prefix and road name, in Seoul, Gangbuk-gu.\<close>

definition sample_road :: "string \<Rightarrow> string \<Rightarrow> string \<Rightarrow> PostalCodeRoad" where
  "sample_road zipCode zipPrefix roadName =
     \<lparr>ID = 0, ZipCode = zipCode, ZipPrefix = zipPrefix,
      SidoName = ''Seoul'', SidoNameEn = ''Seoul'',
      SigunguName = ''Gangbuk-gu'', SigunguNameEn = ''Gangbuk-gu'',
      EupmyeonName = [], EupmyeonNameEn = [],
      RoadName = roadName, RoadNameEn = roadName,
      IsUnderground = False, StartBuildingMain = 1, StartBuildingSub = None,
      EndBuildingMain = None, EndBuildingSub = None, RangeType = 0\<rparr>"

text \<open>
  Files: one that holds a header line and nothing else; one of zero bytes; one with a
  header of 15 fields, a well-formed road row and a row of four fields, which the reader
  reports as an error; one whose header and only row have four fields; and one with a
  header and three well-formed rows.
  \<open>sample_fs\<close> holds them under their names; any other path does not open.
\<close>

definition road_header :: "string list" where
  "road_header =
     [''zip'', ''sido'', ''sido_en'', ''sigungu'', ''sigungu_en'', ''eupmyeon'',
      ''eupmyeon_en'', ''road'', ''road_en'', ''underground'', ''start_main'',
      ''start_sub'', ''end_main'', ''end_sub'', ''range_type'']"

definition good_row :: "string list" where
  "good_row =
     [''01001'', ''Seoul'', ''Seoul'', ''Gangbuk-gu'', ''Gangbuk-gu'', [], [],
      ''Samyang-ro '', ''Samyang-ro'', ''1'', ''0'', ''0'', ''999'', ''2'', ''1'']"

definition header_only_file :: input_file where
  "header_only_file =
     \<lparr>scan_lines = [''zip|sido|sido_en|sigungu|sigungu_en|eupmyeon|eupmyeon_en|road|road_en|underground|start_main|start_sub|end_main|end_sub|range_type''],
      scan_err = None, csv_reads = [Fields road_header]\<rparr>"

definition zero_byte_file :: input_file where
  "zero_byte_file = \<lparr>scan_lines = [], scan_err = None, csv_reads = []\<rparr>"

definition mixed_file :: input_file where
  "mixed_file =
     \<lparr>scan_lines =
        [''zip|sido|sido_en|sigungu|sigungu_en|eupmyeon|eupmyeon_en|road|road_en|underground|start_main|start_sub|end_main|end_sub|range_type'',
         ''01001|Seoul|Seoul|Gangbuk-gu|Gangbuk-gu|||Samyang-ro |Samyang-ro|1|0|0|999|2|1'',
         ''01000|Seoul|Seoul|Gangbuk-gu''],
      scan_err = None,
      csv_reads = [Fields road_header, Fields good_row,
                   ReadError (External ''wrong number of fields'')]\<rparr>"

definition narrow_file :: input_file where
  "narrow_file =
     \<lparr>scan_lines = [''zip|sido|sido_en|sigungu'', ''01000|Seoul|Seoul|Gangbuk-gu''],
      scan_err = None,
      csv_reads = [Fields [''zip'', ''sido'', ''sido_en'', ''sigungu''],
                   Fields [''01000'', ''Seoul'', ''Seoul'', ''Gangbuk-gu'']]\<rparr>"

definition three_rows_file :: input_file where
  "three_rows_file =
     \<lparr>scan_lines =
        [''zip|sido|sido_en|sigungu|sigungu_en|eupmyeon|eupmyeon_en|road|road_en|underground|start_main|start_sub|end_main|end_sub|range_type'',
         ''01001|Seoul|Seoul|Gangbuk-gu|Gangbuk-gu|||Samyang-ro |Samyang-ro|1|0|0|999|2|1'',
         ''01002|Seoul|Seoul|Gangbuk-gu|Gangbuk-gu|||Samyang-ro |Samyang-ro|1|0|0|999|2|1'',
         ''01003|Seoul|Seoul|Gangbuk-gu|Gangbuk-gu|||Samyang-ro |Samyang-ro|1|0|0|999|2|1''],
      scan_err = None,
      csv_reads = [Fields road_header, Fields good_row, Fields (good_row[0 := ''01002'']),
                   Fields (good_row[0 := ''01003''])]\<rparr>"

definition sample_fs :: filesystem where
  "sample_fs path =
     (if path = ''header.txt'' then Inr header_only_file
      else if path = ''empty.txt'' then Inr zero_byte_file
      else if path = ''mixed.txt'' then Inr mixed_file
      else if path = ''narrow.txt'' then Inr narrow_file
      else if path = ''three.txt'' then Inr three_rows_file
      else Inl (External ''no such file or directory''))"

text \<open>A database whose road table holds one row, with identifier 1.\<close>

definition one_row_tables :: tables where
  "one_row_tables =
     \<lparr>road_rows = [(sample_road ''01000'' ''010'' ''Samyang-ro'')\<lparr>ID := 1\<rparr>], road_seq = 1,
      land_rows = [], land_seq = 0\<rparr>"

section \<open>Derived notions used in the statements\<close>

text \<open>
  What \<open>Upsert\<close> and \<open>BatchUpsert\<close> do to the prefix of a valid record: it is derived
  when the caller left it empty and kept otherwise.
\<close>

definition derive_prefix :: "PostalCodeRoad \<Rightarrow> PostalCodeRoad" where
  "derive_prefix road =
     (if ZipPrefix road = [] then road\<lparr>ZipPrefix := ExtractZipPrefix (ZipCode road)\<rparr>
      else road)"

text \<open>
  The rows of a file that become records (those read without error and with at least
  \<open>k\<close> fields), and the structural errors of the others, with their line numbers
  counted from \<open>n\<close>.
\<close>

definition usable_rows :: "nat \<Rightarrow> read_result list \<Rightarrow> string list list" where
  "usable_rows k reads = [row. Fields row \<leftarrow> reads, k \<le> length row]"

fun row_errors :: "nat \<Rightarrow> int \<Rightarrow> read_result list \<Rightarrow> parse_error list" where
  "row_errors k n [] = []"
| "row_errors k n (ReadError err # rest) = CsvError n err # row_errors k (n + 1) rest"
| "row_errors k n (Fields row # rest) =
     (if length row < k then TooFewFields n (length row) # row_errors k (n + 1) rest
      else row_errors k (n + 1) rest)"

text \<open>
  The specification's account of the batches: the records cut into consecutive pieces of
  \<open>n\<close>, the last one possibly shorter; each piece is persisted by one call, and counts
  whole as errors when the call fails and whole as successes when it does not.
\<close>

function chunks :: "nat \<Rightarrow> 'a list \<Rightarrow> 'a list list" where
  "chunks n xs = (if xs = [] \<or> n = 0 then [] else take n xs # chunks n (drop n xs))"
  by pat_completeness auto
termination
  by (relation "measure (\<lambda>(n, xs). length xs)") auto

fun persist_batches ::
  "'db Repository \<Rightarrow> PostalCodeRoad list list \<Rightarrow> int \<Rightarrow> int \<Rightarrow> 'db \<Rightarrow> int \<times> int \<times> 'db" where
  "persist_batches repo [] successes errors db = (successes, errors, db)"
| "persist_batches repo (batch # batches) successes errors db =
     (case BatchUpsert repo batch db of
        (Some err, db') \<Rightarrow>
          persist_batches repo batches successes (errors + int (length batch)) db'
      | (None, db') \<Rightarrow>
          persist_batches repo batches (successes + int (length batch)) errors db')"

fun persist_land_batches ::
  "'db Repository \<Rightarrow> PostalCodeLand list list \<Rightarrow> int \<Rightarrow> int \<Rightarrow> 'db \<Rightarrow> int \<times> int \<times> 'db" where
  "persist_land_batches repo [] successes errors db = (successes, errors, db)"
| "persist_land_batches repo (batch # batches) successes errors db =
     (case BatchUpsertLand repo batch db of
        (Some err, db') \<Rightarrow>
          persist_land_batches repo batches successes (errors + int (length batch)) db'
      | (None, db') \<Rightarrow>
          persist_land_batches repo batches (successes + int (length batch)) errors db')"

definition good_land_row :: "string list" where
  "good_land_row =
     [''25627'', ''Gangwon-do'', ''Gangwon-do'', ''Gangneung-si'', ''Gangneung-si'',
      ''Gangdong-myeon'', ''Gangdong-myeon'', ''Mojeon-ri'', ''0'', [], ''2'', ''3'',
      ''878'', ''0'']"

text \<open>
  The number of characters of a string: the code points of its UTF-8 encoding, counted
  as the bytes that are not continuation bytes (\<open>10xxxxxx\<close>).
\<close>

definition characters :: "string \<Rightarrow> nat" where
  "characters s =
     length (filter (\<lambda>c. \<not> (128 \<le> (of_char c :: nat) \<and> (of_char c :: nat) < 192)) s)"

text \<open>
  A string that begins, or ends, with a white-space character; a list of white-space
  characters.
\<close>

definition starts_with_space :: "string \<Rightarrow> bool" where
  "starts_with_space s = list_ex (\<lambda>r. prefix r s) space_runes"

definition ends_with_space :: "string \<Rightarrow> bool" where
  "ends_with_space s = list_ex (\<lambda>r. suffix r s) space_runes"

definition spaces :: "string list \<Rightarrow> bool" where
  "spaces rs = list_all is_space_rune rs"

text \<open>The decimal numeral of a natural number, without sign and without leading zeros.\<close>

function decimal :: "nat \<Rightarrow> string" where
  "decimal m =
     (if m < 10 then [char_of (48 + m)]
      else decimal (m div 10) @ [char_of (48 + m mod 10)])"
  by pat_completeness auto
termination
  by (relation "measure id") auto


section \<open>Trimming\<close>

text \<open>
  What \<open>TrimSpace\<close> does, said without it: the string is a run of white-space
  characters, then the result, then a run of white-space characters, and the result
  neither begins nor ends with a white-space character.
\<close>

lemma space_rune_length: "is_space_rune r \<Longrightarrow> r \<noteq> [] \<and> length r \<le> 3"
  by (auto simp: is_space_rune_def space_runes_def)

lemma starts_with_space_iff:
  "starts_with_space s \<longleftrightarrow>
     is_space_rune (take 1 s) \<or> is_space_rune (take 2 s) \<or> is_space_rune (take 3 s)"
proof
  assume "starts_with_space s"
  then obtain r where r: "is_space_rune r" "prefix r s"
    by (auto simp: starts_with_space_def is_space_rune_def list_ex_iff)
  then have "r = take (length r) s"
    by (auto simp: prefix_def)
  moreover have "length r = 1 \<or> length r = 2 \<or> length r = 3"
  proof -
    from space_rune_length [OF r(1)] have "0 < length r" "length r \<le> 3" by auto
    then show ?thesis by arith
  qed
  ultimately show "is_space_rune (take 1 s) \<or> is_space_rune (take 2 s) \<or> is_space_rune (take 3 s)"
    using r(1) by metis
next
  assume "is_space_rune (take 1 s) \<or> is_space_rune (take 2 s) \<or> is_space_rune (take 3 s)"
  then obtain k where "is_space_rune (take k s)" by blast
  moreover have "prefix (take k s) s" by (rule take_is_prefix)
  ultimately show "starts_with_space s"
    by (auto simp: starts_with_space_def is_space_rune_def list_ex_iff)
qed

lemma ends_with_space_iff:
  "ends_with_space s \<longleftrightarrow>
     is_space_rune (rev (take 1 (rev s))) \<or> is_space_rune (rev (take 2 (rev s)))
     \<or> is_space_rune (rev (take 3 (rev s)))"
proof
  assume "ends_with_space s"
  then obtain r where r: "is_space_rune r" "suffix r s"
    by (auto simp: ends_with_space_def is_space_rune_def list_ex_iff)
  then have "prefix (rev r) (rev s)"
    by (simp add: suffix_to_prefix)
  then have "rev r = take (length r) (rev s)"
    by (auto simp: prefix_def)
  then have "r = rev (take (length r) (rev s))"
    by (metis rev_rev_ident)
  moreover have "length r = 1 \<or> length r = 2 \<or> length r = 3"
  proof -
    from space_rune_length [OF r(1)] have "0 < length r" "length r \<le> 3" by auto
    then show ?thesis by arith
  qed
  ultimately show "is_space_rune (rev (take 1 (rev s))) \<or> is_space_rune (rev (take 2 (rev s)))
     \<or> is_space_rune (rev (take 3 (rev s)))"
    using r(1) by metis
next
  assume "is_space_rune (rev (take 1 (rev s))) \<or> is_space_rune (rev (take 2 (rev s)))
     \<or> is_space_rune (rev (take 3 (rev s)))"
  then obtain k where k: "is_space_rune (rev (take k (rev s)))" by blast
  have "prefix (take k (rev s)) (rev s)" by (rule take_is_prefix)
  then have "suffix (rev (take k (rev s))) s"
    by (simp add: suffix_to_prefix)
  with k show "ends_with_space s"
    by (auto simp: ends_with_space_def is_space_rune_def list_ex_iff)
qed

lemma trim_left_spec:
  "\<exists>pre. spaces pre \<and> s = concat pre @ trim_left s \<and> \<not> starts_with_space (trim_left s)"
proof (induction s rule: trim_left.induct)
  case (1 a b c s)
  show ?case
  proof (cases "is_space_rune [a]")
    case True
    with 1(1) obtain pre where "spaces pre" "b # c # s = concat pre @ trim_left (b # c # s)"
      "\<not> starts_with_space (trim_left (b # c # s))" by auto
    with True show ?thesis
      by (intro exI [of _ "[a] # pre"]) (simp add: spaces_def)
  next
    case na: False
    show ?thesis
    proof (cases "is_space_rune [a, b]")
      case True
      with na 1(2) obtain pre where "spaces pre" "c # s = concat pre @ trim_left (c # s)"
        "\<not> starts_with_space (trim_left (c # s))" by auto
      with True na show ?thesis
        by (intro exI [of _ "[a, b] # pre"]) (simp add: spaces_def)
    next
      case nab: False
      show ?thesis
      proof (cases "is_space_rune [a, b, c]")
        case True
        with na nab 1(3) obtain pre where "spaces pre" "s = concat pre @ trim_left s"
          "\<not> starts_with_space (trim_left s)" by auto
        with True na nab show ?thesis
          by (intro exI [of _ "[a, b, c] # pre"]) (simp add: spaces_def)
      next
        case False
        with na nab show ?thesis
          by (intro exI [of _ "[]"]) (simp add: spaces_def starts_with_space_iff)
      qed
    qed
  qed
next
  case (2 a b)
  show ?case
  proof (cases "is_space_rune [a]")
    case True
    with 2 obtain pre where "spaces pre" "[b] = concat pre @ trim_left [b]"
      "\<not> starts_with_space (trim_left [b])" by auto
    with True show ?thesis
      by (intro exI [of _ "[a] # pre"]) (simp add: spaces_def)
  next
    case na: False
    show ?thesis
    proof (cases "is_space_rune [a, b]")
      case True
      with na show ?thesis
        by (intro exI [of _ "[[a, b]]"])
           (simp add: spaces_def starts_with_space_iff is_space_rune_def space_runes_def)
    next
      case False
      with na show ?thesis
        by (intro exI [of _ "[]"]) (simp add: spaces_def starts_with_space_iff)
    qed
  qed
next
  case (3 a)
  show ?case
  proof (cases "is_space_rune [a]")
    case True
    then show ?thesis
      by (intro exI [of _ "[[a]]"])
         (simp add: spaces_def starts_with_space_iff is_space_rune_def space_runes_def)
  next
    case False
    then show ?thesis
      by (intro exI [of _ "[]"]) (simp add: spaces_def starts_with_space_iff)
  qed
next
  case 4
  show ?case
    by (intro exI [of _ "[]"])
       (simp add: spaces_def starts_with_space_iff is_space_rune_def space_runes_def)
qed


lemma trim_right_rev_spec:
  "\<exists>post. spaces post \<and> rev u = rev (trim_right_rev u) @ concat post
      \<and> \<not> ends_with_space (rev (trim_right_rev u))"
proof (induction u rule: trim_right_rev.induct)
  case (1 a b c s)
  show ?case
  proof (cases "is_space_rune [a]")
    case True
    with 1(1) obtain post where "spaces post"
      "rev (b # c # s) = rev (trim_right_rev (b # c # s)) @ concat post"
      "\<not> ends_with_space (rev (trim_right_rev (b # c # s)))" by auto
    with True show ?thesis
      by (intro exI [of _ "post @ [[a]]"]) (simp add: spaces_def)
  next
    case na: False
    show ?thesis
    proof (cases "is_space_rune [b, a]")
      case True
      with na 1(2) obtain post where "spaces post"
        "rev (c # s) = rev (trim_right_rev (c # s)) @ concat post"
        "\<not> ends_with_space (rev (trim_right_rev (c # s)))" by auto
      with True na show ?thesis
        by (intro exI [of _ "post @ [[b, a]]"]) (simp add: spaces_def)
    next
      case nab: False
      show ?thesis
      proof (cases "is_space_rune [c, b, a]")
        case True
        with na nab 1(3) obtain post where "spaces post"
          "rev s = rev (trim_right_rev s) @ concat post"
          "\<not> ends_with_space (rev (trim_right_rev s))" by auto
        with True na nab show ?thesis
          by (intro exI [of _ "post @ [[c, b, a]]"]) (simp add: spaces_def)
      next
        case False
        with na nab show ?thesis
          by (intro exI [of _ "[]"]) (simp add: spaces_def ends_with_space_iff)
      qed
    qed
  qed
next
  case (2 a b)
  show ?case
  proof (cases "is_space_rune [a]")
    case True
    with 2 obtain post where "spaces post" "rev [b] = rev (trim_right_rev [b]) @ concat post"
      "\<not> ends_with_space (rev (trim_right_rev [b]))" by auto
    with True show ?thesis
      by (intro exI [of _ "post @ [[a]]"]) (simp add: spaces_def)
  next
    case na: False
    show ?thesis
    proof (cases "is_space_rune [b, a]")
      case True
      with na show ?thesis
        by (intro exI [of _ "[[b, a]]"])
           (simp add: spaces_def ends_with_space_iff is_space_rune_def space_runes_def)
    next
      case False
      with na show ?thesis
        by (intro exI [of _ "[]"]) (simp add: spaces_def ends_with_space_iff)
    qed
  qed
next
  case (3 a)
  show ?case
  proof (cases "is_space_rune [a]")
    case True
    then show ?thesis
      by (intro exI [of _ "[[a]]"])
         (simp add: spaces_def ends_with_space_iff is_space_rune_def space_runes_def)
  next
    case False
    then show ?thesis
      by (intro exI [of _ "[]"]) (simp add: spaces_def ends_with_space_iff)
  qed
next
  case 4
  show ?case
    by (intro exI [of _ "[]"])
       (simp add: spaces_def ends_with_space_iff is_space_rune_def space_runes_def)
qed

lemma TrimSpace_spec:
  "\<exists>pre post. spaces pre \<and> spaces post \<and> s = concat pre @ TrimSpace s @ concat post
      \<and> \<not> starts_with_space (TrimSpace s) \<and> \<not> ends_with_space (TrimSpace s)"
proof -
  from trim_left_spec [of s] obtain pre where pre: "spaces pre"
    "s = concat pre @ trim_left s" "\<not> starts_with_space (trim_left s)" by blast
  from trim_right_rev_spec [of "rev (trim_left s)"] obtain post where post: "spaces post"
    "trim_left s = TrimSpace s @ concat post" "\<not> ends_with_space (TrimSpace s)"
    by (auto simp: TrimSpace_def)
  have "\<not> starts_with_space (TrimSpace s)"
  proof
    assume "starts_with_space (TrimSpace s)"
    then obtain r where "r \<in> set space_runes" "prefix r (TrimSpace s)"
      by (auto simp: starts_with_space_def list_ex_iff)
    moreover have "prefix (TrimSpace s) (trim_left s)"
      using post(2) by (metis prefixI)
    ultimately have "starts_with_space (trim_left s)"
      by (auto simp: starts_with_space_def list_ex_iff intro: prefix_order.trans)
    with pre(3) show False by contradiction
  qed
  with pre post show ?thesis by (metis append.assoc)
qed

lemma trim_left_id: "\<not> starts_with_space s \<Longrightarrow> trim_left s = s"
  by (cases s rule: trim_left.cases) (auto simp: starts_with_space_iff)

lemma trim_right_rev_id: "\<not> ends_with_space (rev u) \<Longrightarrow> trim_right_rev u = u"
  by (cases u rule: trim_right_rev.cases) (auto simp: ends_with_space_iff)

lemma TrimSpace_id:
  "\<not> starts_with_space s \<Longrightarrow> \<not> ends_with_space s \<Longrightarrow> TrimSpace s = s"
  by (simp add: TrimSpace_def trim_left_id trim_right_rev_id)


section \<open>Prefix extraction\<close>

text \<open>
  C5 (as amended). Every input string is some white-space characters, a string \<open>t\<close>
  that neither begins nor ends with a white-space character, and some white-space
  characters; \<open>ExtractZipPrefix\<close> returns the first three bytes of \<open>t\<close> when \<open>t\<close>
  has at least three bytes, and the empty string otherwise. The four examples of the
  specification evaluate as stated, and so do inputs with white space on one side only
  and with tabs and line ends.
\<close>

theorem C5_ExtractZipPrefix:
  "(\<exists>pre t post. spaces pre \<and> spaces post \<and> code = concat pre @ t @ concat post
       \<and> \<not> starts_with_space t \<and> \<not> ends_with_space t
       \<and> ExtractZipPrefix code = (if length t \<ge> 3 then take 3 t else []))
   \<and> ExtractZipPrefix ''01000'' = ''010''
   \<and> ExtractZipPrefix ''12'' = []
   \<and> ExtractZipPrefix ''  01000  '' = ''010''
   \<and> ExtractZipPrefix [] = []
   \<and> ExtractZipPrefix ''12  '' = []
   \<and> ExtractZipPrefix ''  12'' = []
   \<and> ExtractZipPrefix [CHR 0x09, CHR ''9'', CHR ''8'', CHR ''7'', CHR ''6'', CHR 0x0D, CHR 0x0A]
        = ''987''"
proof -
  from TrimSpace_spec [of code]
  have "\<exists>pre t post. spaces pre \<and> spaces post \<and> code = concat pre @ t @ concat post
       \<and> \<not> starts_with_space t \<and> \<not> ends_with_space t
       \<and> ExtractZipPrefix code = (if length t \<ge> 3 then take 3 t else [])"
    unfolding ExtractZipPrefix_def Let_def by blast
  then show ?thesis
    by (simp add: ExtractZipPrefix_def TrimSpace_def is_space_rune_def space_runes_def)
qed

text \<open>At the third example: two blanks, \<open>01000\<close>, two blanks.\<close>

theorem C5_ExtractZipPrefix_witness:
  "spaces ['' '', '' ''] \<and> ''  01000  '' = concat ['' '', '' ''] @ ''01000'' @ concat ['' '', '' '']
   \<and> \<not> starts_with_space ''01000'' \<and> \<not> ends_with_space ''01000''
   \<and> ExtractZipPrefix ''  01000  '' = take 3 ''01000''"
  using C5_ExtractZipPrefix [of "''  01000  ''"]
  by (simp add: spaces_def starts_with_space_iff ends_with_space_iff is_space_rune_def
      space_runes_def)

text \<open>
  The claim as written, with characters, fails: a single Korean syllable (one
  character, three bytes) is returned whole where the claim gives the empty string, and
  of \<open>ab\<close> followed by that syllable (three characters) the result is \<open>ab\<close> and the
  first byte of the syllable.
\<close>

theorem C5_counterexample:
  "characters [CHR 0xEA, CHR 0xB0, CHR 0x80] = 1
   \<and> ExtractZipPrefix [CHR 0xEA, CHR 0xB0, CHR 0x80] = [CHR 0xEA, CHR 0xB0, CHR 0x80]
   \<and> characters [CHR ''a'', CHR ''b'', CHR 0xEA, CHR 0xB0, CHR 0x80] = 3
   \<and> ExtractZipPrefix [CHR ''a'', CHR ''b'', CHR 0xEA, CHR 0xB0, CHR 0x80] =
        [CHR ''a'', CHR ''b'', CHR 0xEA]"
  by (simp add: characters_def ExtractZipPrefix_def TrimSpace_def is_space_rune_def
      space_runes_def)

section \<open>Evaluation\<close>

text \<open>The definitions that the evaluation of a concrete call unfolds.\<close>

lemmas eval_defs = sample_road_def validate_def mem_repo_def one_row_tables_def
  ExtractZipPrefix_def TrimSpace_def is_space_rune_def space_runes_def


lemmas run_defs = eval_defs derive_prefix_def Upsert_def BatchUpsert_def spy_def
  mem_Create_def mem_Update_def empty_tables_def refusing_repo_def GetByZipCode_def Let_def


section \<open>Reading by prefix\<close>

text \<open>
  C6 (as amended). \<open>GetByZipPrefix\<close> fails, with an error that depends on the prefix
  alone and without consulting the store, when the prefix is empty or not exactly three
  bytes long; otherwise it returns what the store's \<open>FindByZipPrefix\<close> returns for the
  same prefix, with the limit replaced by 10 when it is not in 1..100 and a negative
  offset replaced by 0.
\<close>

theorem C6_GetByZipPrefix:
  "(length zipPrefix \<noteq> 3 \<longrightarrow>
      GetByZipPrefix repo zipPrefix limit offset db =
        ([], 0, Some (Errorf (if zipPrefix = [] then ''zip prefix is required''
                              else ''zip prefix must be 3 digits''))))
   \<and> (length zipPrefix = 3 \<longrightarrow>
      GetByZipPrefix repo zipPrefix limit offset db =
        FindByZipPrefix repo zipPrefix
          (if limit \<le> 0 \<or> limit > 100 then 10 else limit)
          (if offset < 0 then 0 else offset) db)"
  by (auto simp: GetByZipPrefix_def)

theorem C6_GetByZipPrefix_witness:
  "GetByZipPrefix mem_repo ''12'' 10 0 empty_tables =
     ([], 0, Some (Errorf ''zip prefix must be 3 digits''))
   \<and> GetByZipPrefix mem_repo ''010'' 500 (- 3) empty_tables =
       FindByZipPrefix mem_repo ''010'' 10 0 empty_tables
   \<and> GetByZipPrefix mem_repo ''010'' 100 7 empty_tables =
       FindByZipPrefix mem_repo ''010'' 100 7 empty_tables"
  using C6_GetByZipPrefix [of "''12''" mem_repo 10 0 empty_tables]
    C6_GetByZipPrefix [of "''010''" mem_repo 500 "- 3" empty_tables]
    C6_GetByZipPrefix [of "''010''" mem_repo 100 7 empty_tables]
  by simp

text \<open>
  The claim as written, with characters, fails: a prefix of one character and three
  bytes is handed to the store, and a prefix of three characters and nine bytes is
  refused.
\<close>

theorem C6_counterexample:
  "characters [CHR 0xEA, CHR 0xB0, CHR 0x80] = 1
   \<and> GetByZipPrefix mem_repo [CHR 0xEA, CHR 0xB0, CHR 0x80] 10 0 one_row_tables =
       FindByZipPrefix mem_repo [CHR 0xEA, CHR 0xB0, CHR 0x80] 10 0 one_row_tables
   \<and> snd (snd (GetByZipPrefix mem_repo [CHR 0xEA, CHR 0xB0, CHR 0x80] 10 0 one_row_tables))
       = None
   \<and> characters [CHR 0xEA, CHR 0xB0, CHR 0x80, CHR 0xEA, CHR 0xB0, CHR 0x80,
                  CHR 0xEA, CHR 0xB0, CHR 0x80] = 3
   \<and> GetByZipPrefix mem_repo
        [CHR 0xEA, CHR 0xB0, CHR 0x80, CHR 0xEA, CHR 0xB0, CHR 0x80,
         CHR 0xEA, CHR 0xB0, CHR 0x80] 10 0 one_row_tables =
       ([], 0, Some (Errorf ''zip prefix must be 3 digits''))"
  by (simp add: characters_def GetByZipPrefix_def mem_repo_def one_row_tables_def
      sample_road_def)

section \<open>Upsert of one record\<close>

text \<open>The scan returns on the first matching row, which is what \<^const>\<open>find\<close> yields.\<close>

lemma upsert_scan_find:
  "upsert_scan repo existing road db =
     (case find (\<lambda>e. SidoName e = SidoName road \<and> SigunguName e = SigunguName road
                     \<and> RoadName e = RoadName road
                     \<and> StartBuildingMain e = StartBuildingMain road) existing of
        Some e \<Rightarrow> Update repo (road\<lparr>ID := ID e\<rparr>) db
      | None \<Rightarrow> Create repo road db)"
  by (induction existing) auto


text \<open>
  C4. For a record that passes validation, with the prefix derived when it was empty:
  when the record carries an identifier above 0, \<open>Upsert\<close> is the store's \<open>Update\<close> of
  it, whatever the lookup would return; when it carries none and the store returns the
  rows of its zip code, \<open>Upsert\<close> is the \<open>Update\<close> of the record with the identifier of
  the first row that agrees on SidoName, SigunguName, RoadName and StartBuildingMain,
  and the \<open>Create\<close> of the record when no row does.
\<close>

theorem C4_Upsert:
  assumes "validate road = None"
  shows "(ID road > 0 \<longrightarrow>
            Upsert (repo\<lparr>FindByZipCode := lookup\<rparr>) road db =
              Update repo (if ZipPrefix road = []
                           then road\<lparr>ZipPrefix := ExtractZipPrefix (ZipCode road)\<rparr>
                           else road) db)
       \<and> (ID road = 0 \<and> FindByZipCode repo (ZipCode road) db = (existing, None) \<longrightarrow>
            Upsert repo road db =
              (let road' = (if ZipPrefix road = []
                            then road\<lparr>ZipPrefix := ExtractZipPrefix (ZipCode road)\<rparr>
                            else road)
               in case find (\<lambda>e. SidoName e = SidoName road \<and> SigunguName e = SigunguName road
                                  \<and> RoadName e = RoadName road
                                  \<and> StartBuildingMain e = StartBuildingMain road) existing of
                    Some e \<Rightarrow> Update repo (road'\<lparr>ID := ID e\<rparr>) db
                  | None \<Rightarrow> Create repo road' db))"
  using assms by (auto simp: Upsert_def upsert_scan_find Let_def split: option.splits)

theorem C4_Upsert_witness:
  "validate (sample_road ''01000'' [] ''Samyang-ro'') = None
   \<and> Upsert mem_repo (sample_road ''01000'' [] ''Samyang-ro'') one_row_tables =
       Update mem_repo ((sample_road ''01000'' ''010'' ''Samyang-ro'')\<lparr>ID := 1\<rparr>) one_row_tables
   \<and> Upsert mem_repo (sample_road ''01000'' [] ''Other-ro'') one_row_tables =
       Create mem_repo (sample_road ''01000'' ''010'' ''Other-ro'') one_row_tables
   \<and> Upsert mem_repo ((sample_road ''01000'' [] ''Samyang-ro'')\<lparr>ID := 7\<rparr>) one_row_tables =
       Update mem_repo ((sample_road ''01000'' ''010'' ''Samyang-ro'')\<lparr>ID := 7\<rparr>) one_row_tables"
proof -
  have v1: "validate (sample_road ''01000'' [] ''Samyang-ro'') = None"
    and v2: "validate (sample_road ''01000'' [] ''Other-ro'') = None"
    and v3: "validate ((sample_road ''01000'' [] ''Samyang-ro'')\<lparr>ID := 7\<rparr>) = None"
    by (simp_all add: sample_road_def validate_def)
  have same: "mem_repo\<lparr>FindByZipCode := FindByZipCode mem_repo\<rparr> = mem_repo"
    by simp
  show ?thesis
    using v1
      C4_Upsert [OF v1, where repo = mem_repo and lookup = "FindByZipCode mem_repo"
        and db = one_row_tables and existing = "road_rows one_row_tables"]
      C4_Upsert [OF v2, where repo = mem_repo and lookup = "FindByZipCode mem_repo"
        and db = one_row_tables and existing = "road_rows one_row_tables"]
      C4_Upsert [OF v3, where repo = mem_repo and lookup = "FindByZipCode mem_repo"
        and db = one_row_tables and existing = "road_rows one_row_tables"]
    unfolding same
    by (simp add: eval_defs)
qed



section \<open>What reaches the store\<close>

text \<open>The valid records of a batch, in order, with their prefixes derived.\<close>

lemma batch_validate_valid:
  "fst (batch_validate roads i validRoads validationErrors) =
     validRoads @ map derive_prefix (filter (\<lambda>r. validate r = None) roads)"
  by (induction roads arbitrary: i validRoads validationErrors)
     (auto simp: derive_prefix_def Let_def split: option.splits)

text \<open>What the spy records for \<open>Upsert\<close> and for \<open>BatchUpsert\<close>.\<close>

lemma spy_scan_written:
  "\<exists>n. snd (snd (snd (upsert_scan (spy repo) existing road (db, w)))) = w @ [road\<lparr>ID := n\<rparr>]"
proof (induction existing)
  case Nil
  have "road\<lparr>ID := ID road\<rparr> = road" by simp
  then show ?case
    by (auto simp: spy_def split: prod.splits intro!: exI [of _ "ID road"])
next
  case (Cons e existing)
  then show ?case
    by (auto simp: spy_def split: prod.splits)
qed

lemma spy_Upsert_written:
  "r \<in> set (snd (snd (snd (Upsert (spy repo) road (db, []))))) \<Longrightarrow>
     validate road = None \<and> (\<exists>n. r = (derive_prefix road)\<lparr>ID := n\<rparr>)"
proof -
  assume a: "r \<in> set (snd (snd (snd (Upsert (spy repo) road (db, [])))))"
  show ?thesis
  proof (cases "validate road")
    case (Some err)
    with a show ?thesis by (simp add: Upsert_def)
  next
    case None
    let ?road = "derive_prefix road"
    have same: "?road\<lparr>ID := ID ?road\<rparr> = ?road" by simp
    show ?thesis
    proof (cases "ID ?road > 0")
      case True
      with a None have "r = ?road"
        by (auto simp: Upsert_def derive_prefix_def spy_def Let_def split: prod.splits if_splits)
      with None same show ?thesis by metis
    next
      case False
      obtain ex err where f: "FindByZipCode (spy repo) (ZipCode ?road) (db, []) = (ex, err)"
        by (cases "FindByZipCode (spy repo) (ZipCode ?road) (db, [])") auto
      show ?thesis
      proof (cases err)
        case (Some e)
        with a None False f show ?thesis
          by (auto simp: Upsert_def derive_prefix_def Let_def split: if_splits)
      next
        case n: None
        from spy_scan_written [of repo ex ?road db "[]"]
        obtain k where "snd (snd (snd (upsert_scan (spy repo) ex ?road (db, [])))) = [?road\<lparr>ID := k\<rparr>]"
          by auto
        moreover have "Upsert (spy repo) road (db, []) = upsert_scan (spy repo) ex ?road (db, [])"
          using None False f n
          by (auto simp: Upsert_def derive_prefix_def Let_def split: if_splits)
        ultimately show ?thesis using a None by auto
      qed
    qed
  qed
qed

lemma spy_BatchUpsert_written:
  "snd (snd (BatchUpsert (spy repo) roads (db, []))) =
     map derive_prefix (filter (\<lambda>r. validate r = None) roads)"
  using batch_validate_valid [of roads 0 "[]" "[]"]
  by (auto simp: BatchUpsert_def spy_def split: prod.splits)

lemma validate_None:
  "validate road = None \<longleftrightarrow>
     length (ZipCode road) = 5 \<and> SidoName road \<noteq> [] \<and> RoadName road \<noteq> []"
  by (auto simp: validate_def)

text \<open>
  C3 (as amended). Every road record that \<open>Upsert\<close> or \<open>BatchUpsert\<close> hands to a write
  of the store, whatever the store, has a zip code of exactly 5 bytes and non-empty
  SidoName and RoadName. A prefix that the caller supplied is stored unchanged. When the
  caller left the prefix empty and the zip code neither begins nor ends with a
  white-space character, the stored prefix is the first three bytes of the zip code.
\<close>

theorem C3_persisted:
  "(\<forall>r \<in> set (snd (snd (snd (Upsert (spy repo) road (db, []))))).
      length (ZipCode r) = 5 \<and> SidoName r \<noteq> [] \<and> RoadName r \<noteq> []
      \<and> ZipCode r = ZipCode road
      \<and> (ZipPrefix road \<noteq> [] \<longrightarrow> ZipPrefix r = ZipPrefix road)
      \<and> (ZipPrefix road = [] \<and> \<not> starts_with_space (ZipCode road)
            \<and> \<not> ends_with_space (ZipCode road) \<longrightarrow> ZipPrefix r = take 3 (ZipCode r)))
   \<and> (\<forall>r \<in> set (snd (snd (BatchUpsert (spy repo) roads (db, [])))).
      length (ZipCode r) = 5 \<and> SidoName r \<noteq> [] \<and> RoadName r \<noteq> []
      \<and> (\<exists>q \<in> set roads. ZipCode r = ZipCode q
            \<and> (ZipPrefix q \<noteq> [] \<longrightarrow> ZipPrefix r = ZipPrefix q)
            \<and> (ZipPrefix q = [] \<and> \<not> starts_with_space (ZipCode q)
                  \<and> \<not> ends_with_space (ZipCode q) \<longrightarrow> ZipPrefix r = take 3 (ZipCode r))))"
proof -
  have derived: "ZipPrefix (derive_prefix q) = take 3 (ZipCode q)"
    if "validate q = None" "ZipPrefix q = []" "\<not> starts_with_space (ZipCode q)"
      "\<not> ends_with_space (ZipCode q)" for q
    using that by (simp add: derive_prefix_def ExtractZipPrefix_def TrimSpace_id validate_None)
  have a: "\<forall>r \<in> set (snd (snd (snd (Upsert (spy repo) road (db, []))))).
      length (ZipCode r) = 5 \<and> SidoName r \<noteq> [] \<and> RoadName r \<noteq> []
      \<and> ZipCode r = ZipCode road
      \<and> (ZipPrefix road \<noteq> [] \<longrightarrow> ZipPrefix r = ZipPrefix road)
      \<and> (ZipPrefix road = [] \<and> \<not> starts_with_space (ZipCode road)
            \<and> \<not> ends_with_space (ZipCode road) \<longrightarrow> ZipPrefix r = take 3 (ZipCode r))"
  proof
    fix r assume "r \<in> set (snd (snd (snd (Upsert (spy repo) road (db, [])))))"
    from spy_Upsert_written [OF this]
    obtain n where v: "validate road = None" and r: "r = (derive_prefix road)\<lparr>ID := n\<rparr>"
      by auto
    from v r derived [of road]
    show "length (ZipCode r) = 5 \<and> SidoName r \<noteq> [] \<and> RoadName r \<noteq> []
        \<and> ZipCode r = ZipCode road
        \<and> (ZipPrefix road \<noteq> [] \<longrightarrow> ZipPrefix r = ZipPrefix road)
        \<and> (ZipPrefix road = [] \<and> \<not> starts_with_space (ZipCode road)
              \<and> \<not> ends_with_space (ZipCode road) \<longrightarrow> ZipPrefix r = take 3 (ZipCode r))"
      by (simp add: validate_None derive_prefix_def)
  qed
  have b: "\<forall>r \<in> set (snd (snd (BatchUpsert (spy repo) roads (db, [])))).
      length (ZipCode r) = 5 \<and> SidoName r \<noteq> [] \<and> RoadName r \<noteq> []
      \<and> (\<exists>q \<in> set roads. ZipCode r = ZipCode q
            \<and> (ZipPrefix q \<noteq> [] \<longrightarrow> ZipPrefix r = ZipPrefix q)
            \<and> (ZipPrefix q = [] \<and> \<not> starts_with_space (ZipCode q)
                  \<and> \<not> ends_with_space (ZipCode q) \<longrightarrow> ZipPrefix r = take 3 (ZipCode r)))"
  proof
    fix r assume "r \<in> set (snd (snd (BatchUpsert (spy repo) roads (db, []))))"
    then obtain q where q: "q \<in> set roads" "validate q = None" "r = derive_prefix q"
      unfolding spy_BatchUpsert_written by auto
    with derived [of q]
    show "length (ZipCode r) = 5 \<and> SidoName r \<noteq> [] \<and> RoadName r \<noteq> []
        \<and> (\<exists>q \<in> set roads. ZipCode r = ZipCode q
              \<and> (ZipPrefix q \<noteq> [] \<longrightarrow> ZipPrefix r = ZipPrefix q)
              \<and> (ZipPrefix q = [] \<and> \<not> starts_with_space (ZipCode q)
                    \<and> \<not> ends_with_space (ZipCode q) \<longrightarrow> ZipPrefix r = take 3 (ZipCode r)))"
      by (auto simp: validate_None derive_prefix_def intro!: bexI [of _ q])
  qed
  from a b show ?thesis by blast
qed

text \<open>
  At a record with an empty prefix, and at a batch of a record with its own prefix and a
  record that is not valid.
\<close>

theorem C3_persisted_witness:
  "snd (snd (snd (Upsert (spy mem_repo) (sample_road ''01000'' [] ''Samyang-ro'')
                    (empty_tables, [])))) = [sample_road ''01000'' ''010'' ''Samyang-ro'']
   \<and> \<not> starts_with_space ''01000'' \<and> \<not> ends_with_space ''01000''
   \<and> length (ZipCode (sample_road ''01000'' ''010'' ''Samyang-ro'')) = 5
   \<and> ZipPrefix (sample_road ''01000'' ''010'' ''Samyang-ro'') = take 3 ''01000''
   \<and> snd (snd (BatchUpsert (spy mem_repo)
                  [sample_road ''01000'' ''999'' ''Samyang-ro'', sample_road ''123'' [] ''Other-ro'']
                  (empty_tables, []))) = [sample_road ''01000'' ''999'' ''Samyang-ro'']"
  using C3_persisted [where repo = mem_repo and road = "sample_road ''01000'' [] ''Samyang-ro''"
      and db = empty_tables
      and roads = "[sample_road ''01000'' ''999'' ''Samyang-ro'', sample_road ''123'' [] ''Other-ro'']"]
  by (simp add: run_defs starts_with_space_iff ends_with_space_iff)

text \<open>
  The claim as written fails in three ways. A caller's prefix that differs from the
  first three characters of the zip code is stored as given. A zip code of five bytes
  and three characters passes and is stored. And a zip code with white space around it
  passes the length check untrimmed while its prefix is taken from the trimmed code:
  \<open>123\<close> is stored for the zip code \<open> 1234\<close>, whose first three characters are
  \<open> 12\<close>.
\<close>

theorem C3_counterexample:
  "Upsert mem_repo (sample_road ''01000'' ''999'' ''Samyang-ro'') empty_tables =
     (None, (sample_road ''01000'' ''999'' ''Samyang-ro'')\<lparr>ID := 1\<rparr>,
      \<lparr>road_rows = [(sample_road ''01000'' ''999'' ''Samyang-ro'')\<lparr>ID := 1\<rparr>], road_seq = 1,
       land_rows = [], land_seq = 0\<rparr>)
   \<and> ZipPrefix ((sample_road ''01000'' ''999'' ''Samyang-ro'')\<lparr>ID := 1\<rparr>) \<noteq> []
   \<and> ZipPrefix ((sample_road ''01000'' ''999'' ''Samyang-ro'')\<lparr>ID := 1\<rparr>) \<noteq>
       take 3 (ZipCode ((sample_road ''01000'' ''999'' ''Samyang-ro'')\<lparr>ID := 1\<rparr>))
   \<and> fst (Upsert mem_repo
            (sample_road [CHR 0xEA, CHR 0xB0, CHR 0x80, CHR ''a'', CHR ''b''] [] ''Samyang-ro'')
            empty_tables) = None
   \<and> characters [CHR 0xEA, CHR 0xB0, CHR 0x80, CHR ''a'', CHR ''b''] = 3
   \<and> Upsert mem_repo (sample_road '' 1234'' [] ''Samyang-ro'') empty_tables =
     (None, (sample_road '' 1234'' ''123'' ''Samyang-ro'')\<lparr>ID := 1\<rparr>,
      \<lparr>road_rows = [(sample_road '' 1234'' ''123'' ''Samyang-ro'')\<lparr>ID := 1\<rparr>], road_seq = 1,
       land_rows = [], land_seq = 0\<rparr>)
   \<and> take 3 '' 1234'' = '' 12''"
  by (simp add: run_defs characters_def)

section \<open>Upsert of a batch\<close>

text \<open>The diagnostics: one per rejected record, with its index, zip code and error.\<close>

lemma batch_validate_errors:
  "snd (batch_validate roads i validRoads validationErrors) =
     validationErrors @
       map (\<lambda>(k, r). (k, ZipCode r, the (validate r)))
         (filter (\<lambda>(k, r). validate r \<noteq> None) (zip [i ..< i + length roads] roads))"
proof (induction roads arbitrary: i validRoads validationErrors)
  case Nil
  then show ?case by simp
next
  case (Cons r roads)
  have up: "[i ..< i + length (r # roads)] = i # [Suc i ..< Suc i + length roads]"
    by (simp add: upt_rec)
  show ?case
    unfolding up by (cases "validate r") (simp_all add: Cons.IH Let_def)
qed

text \<open>
  C7 (as amended). \<open>BatchUpsert\<close> validates each record on its own; the records that
  fail are left out and give one diagnostic each; the others, in order and with the
  prefix derived when it was empty, go to the store's \<open>BatchCreate\<close> in one call. The
  service raises its own error (no valid records), without calling the store, exactly
  when no record is valid; otherwise the call returns what \<open>BatchCreate\<close> returns,
  which is an error when the store fails.
\<close>

theorem C7_BatchUpsert:
  "BatchUpsert repo roads db =
     (let validRoads = map derive_prefix (filter (\<lambda>r. validate r = None) roads)
      in if validRoads = [] then (Some (Errorf ''no valid records in batch''), db)
         else BatchCreate repo validRoads db)
   \<and> snd (batch_validate roads 0 [] []) =
       map (\<lambda>(k, r). (k, ZipCode r, the (validate r)))
         (filter (\<lambda>(k, r). validate r \<noteq> None) (zip [0 ..< length roads] roads))"
  using batch_validate_valid [of roads 0 "[]" "[]"] batch_validate_errors [of roads 0 "[]" "[]"]
  by (auto simp: BatchUpsert_def Let_def split: prod.splits)

theorem C7_BatchUpsert_witness:
  "BatchUpsert mem_repo
     [sample_road ''01000'' [] ''Samyang-ro'', sample_road [] [] ''Other-ro'',
      sample_road ''01002'' ''010'' ''Third-ro''] empty_tables =
   BatchCreate mem_repo
     [sample_road ''01000'' ''010'' ''Samyang-ro'', sample_road ''01002'' ''010'' ''Third-ro'']
     empty_tables
   \<and> BatchUpsert mem_repo [sample_road [] [] ''Other-ro''] empty_tables =
       (Some (Errorf ''no valid records in batch''), empty_tables)"
  using C7_BatchUpsert [of mem_repo "[sample_road ''01000'' [] ''Samyang-ro'',
      sample_road [] [] ''Other-ro'', sample_road ''01002'' ''010'' ''Third-ro'']" empty_tables]
    C7_BatchUpsert [of mem_repo "[sample_road [] [] ''Other-ro'']" empty_tables]
  by (simp add: eval_defs derive_prefix_def Let_def)

text \<open>
  The claim as written fails: with a valid record in the batch and a store that refuses
  the insert, the call returns an error although the valid set is not empty.
\<close>

theorem C7_counterexample:
  "fst (BatchUpsert refusing_repo [sample_road ''01000'' [] ''Samyang-ro''] empty_tables)
     = Some (External ''connection refused'')
   \<and> filter (\<lambda>r. validate r = None) [sample_road ''01000'' [] ''Samyang-ro'']
       = [sample_road ''01000'' [] ''Samyang-ro'']"
  by (simp add: run_defs)


section \<open>Validation of the zip code\<close>

text \<open>
  C10. The zip code is checked for its length in bytes and for nothing else:
  \<open>GetByZipCode\<close> hands every 5-byte string to the store and rejects every other
  string; \<open>validate\<close>, which \<open>Upsert\<close> and \<open>BatchUpsert\<close> apply, raises one of its two
  zip-code errors exactly when the zip code is not 5 bytes long, and accepts a record
  exactly when its zip code has 5 bytes and SidoName and RoadName are not empty.
\<close>

theorem C10_zip_length_only:
  "(length zipCode = 5 \<longrightarrow> GetByZipCode repo zipCode db = FindByZipCode repo zipCode db)
   \<and> (length zipCode \<noteq> 5 \<longrightarrow>
        GetByZipCode repo zipCode db =
          ([], Some (Errorf (if zipCode = [] then ''zip code is required''
                             else ''zip code must be 5 digits''))))
   \<and> (validate road \<in> {Some (Errorf ''zip code is required''),
                         Some (Errorf ''zip code must be 5 digits'')}
        \<longleftrightarrow> length (ZipCode road) \<noteq> 5)
   \<and> (validate road = None
        \<longleftrightarrow> length (ZipCode road) = 5 \<and> SidoName road \<noteq> [] \<and> RoadName road \<noteq> [])"
  by (auto simp: GetByZipCode_def validate_def)

text \<open>
  At \<open>abcde\<close>, at the 5 bytes of a Korean syllable followed by \<open>ab\<close> (three visible
  characters), and at a 3-byte zip code.
\<close>

theorem C10_zip_length_only_witness:
  "GetByZipCode mem_repo ''abcde'' one_row_tables = FindByZipCode mem_repo ''abcde'' one_row_tables
   \<and> GetByZipCode mem_repo [CHR 0xEA, CHR 0xB0, CHR 0x80, CHR ''a'', CHR ''b''] one_row_tables =
       FindByZipCode mem_repo [CHR 0xEA, CHR 0xB0, CHR 0x80, CHR ''a'', CHR ''b''] one_row_tables
   \<and> GetByZipCode mem_repo ''123'' one_row_tables =
       ([], Some (Errorf ''zip code must be 5 digits''))
   \<and> validate (sample_road ''abcde'' [] ''Samyang-ro'') = None
   \<and> validate (sample_road [CHR 0xEA, CHR 0xB0, CHR 0x80, CHR ''a'', CHR ''b''] []
                  ''Samyang-ro'') = None
   \<and> validate (sample_road ''123'' [] ''Samyang-ro'') = Some (Errorf ''zip code must be 5 digits'')"
  using C10_zip_length_only [of "''abcde''" mem_repo one_row_tables
      "sample_road ''abcde'' [] ''Samyang-ro''"]
    C10_zip_length_only [of "[CHR 0xEA, CHR 0xB0, CHR 0x80, CHR ''a'', CHR ''b'']" mem_repo
      one_row_tables
      "sample_road [CHR 0xEA, CHR 0xB0, CHR 0x80, CHR ''a'', CHR ''b''] [] ''Samyang-ro''"]
    C10_zip_length_only [of "''123''" mem_repo one_row_tables
      "sample_road ''123'' [] ''Samyang-ro''"]
  by (simp add: sample_road_def validate_def)


section \<open>Parsing rows\<close>

text \<open>Each conditional assignment, as one update of its field.\<close>

lemma Atoi_Nil: "Atoi [] = None"
  by (simp add: Atoi_def)

lemma set_IsUnderground_eq:
  "set_IsUnderground row road =
     road\<lparr>IsUnderground := (TrimSpace (row ! 9) = ''1'' \<or> IsUnderground road)\<rparr>"
  by (simp add: set_IsUnderground_def Let_def)

lemma set_StartBuildingMain_eq:
  "set_StartBuildingMain row road =
     road\<lparr>StartBuildingMain :=
       (case Atoi (TrimSpace (row ! 10)) of Some val \<Rightarrow> val | None \<Rightarrow> StartBuildingMain road)\<rparr>"
  by (cases "Atoi (TrimSpace (row ! 10))") (auto simp: set_StartBuildingMain_def Let_def Atoi_Nil)

lemma set_StartBuildingSub_eq:
  "set_StartBuildingSub row road =
     road\<lparr>StartBuildingSub :=
       (if TrimSpace (row ! 11) = [] \<or> TrimSpace (row ! 11) = ''0'' then StartBuildingSub road
        else case Atoi (TrimSpace (row ! 11)) of
               Some val \<Rightarrow> Some val | None \<Rightarrow> StartBuildingSub road)\<rparr>"
  by (cases "Atoi (TrimSpace (row ! 11))") (auto simp: set_StartBuildingSub_def Let_def)

lemma set_EndBuildingMain_eq:
  "set_EndBuildingMain row road =
     road\<lparr>EndBuildingMain :=
       (case Atoi (TrimSpace (row ! 12)) of Some val \<Rightarrow> Some val | None \<Rightarrow> EndBuildingMain road)\<rparr>"
  by (cases "Atoi (TrimSpace (row ! 12))") (auto simp: set_EndBuildingMain_def Let_def Atoi_Nil)

lemma set_EndBuildingSub_eq:
  "set_EndBuildingSub row road =
     road\<lparr>EndBuildingSub :=
       (if TrimSpace (row ! 13) = [] \<or> TrimSpace (row ! 13) = ''0'' then EndBuildingSub road
        else case Atoi (TrimSpace (row ! 13)) of
               Some val \<Rightarrow> Some val | None \<Rightarrow> EndBuildingSub road)\<rparr>"
  by (cases "Atoi (TrimSpace (row ! 13))") (auto simp: set_EndBuildingSub_def Let_def)

lemma set_RangeType_eq:
  "set_RangeType row road =
     road\<lparr>RangeType :=
       (case Atoi (TrimSpace (row ! 14)) of
          Some val \<Rightarrow> word_of_int val | None \<Rightarrow> RangeType road)\<rparr>"
  by (cases "Atoi (TrimSpace (row ! 14))") (auto simp: set_RangeType_def Let_def Atoi_Nil)

lemmas road_steps = set_IsUnderground_eq set_StartBuildingMain_eq set_StartBuildingSub_eq
  set_EndBuildingMain_eq set_EndBuildingSub_eq set_RangeType_eq

lemma set_IsMountain_eq:
  "set_IsMountain row land =
     land\<lparr>IsMountain_land := (TrimSpace (row ! 8) = ''1'' \<or> IsMountain_land land)\<rparr>"
  by (simp add: set_IsMountain_def Let_def)

lemma set_StartJibunMain_eq:
  "set_StartJibunMain row land =
     land\<lparr>StartJibunMain_land :=
       (case Atoi (TrimSpace (row ! 10)) of
          Some val \<Rightarrow> val | None \<Rightarrow> StartJibunMain_land land)\<rparr>"
  by (cases "Atoi (TrimSpace (row ! 10))") (auto simp: set_StartJibunMain_def Let_def Atoi_Nil)

lemma set_StartJibunSub_eq:
  "set_StartJibunSub row land =
     land\<lparr>StartJibunSub_land :=
       (if TrimSpace (row ! 11) = [] \<or> TrimSpace (row ! 11) = ''0''
        then StartJibunSub_land land
        else case Atoi (TrimSpace (row ! 11)) of
               Some val \<Rightarrow> Some val | None \<Rightarrow> StartJibunSub_land land)\<rparr>"
  by (cases "Atoi (TrimSpace (row ! 11))") (auto simp: set_StartJibunSub_def Let_def)

lemma set_EndJibunMain_eq:
  "set_EndJibunMain row land =
     land\<lparr>EndJibunMain_land :=
       (case Atoi (TrimSpace (row ! 12)) of
          Some val \<Rightarrow> Some val | None \<Rightarrow> EndJibunMain_land land)\<rparr>"
  by (cases "Atoi (TrimSpace (row ! 12))") (auto simp: set_EndJibunMain_def Let_def Atoi_Nil)

lemma set_EndJibunSub_eq:
  "set_EndJibunSub row land =
     land\<lparr>EndJibunSub_land :=
       (if TrimSpace (row ! 13) = [] \<or> TrimSpace (row ! 13) = ''0''
        then EndJibunSub_land land
        else case Atoi (TrimSpace (row ! 13)) of
               Some val \<Rightarrow> Some val | None \<Rightarrow> EndJibunSub_land land)\<rparr>"
  by (cases "Atoi (TrimSpace (row ! 13))") (auto simp: set_EndJibunSub_def Let_def)

lemmas land_steps = set_IsMountain_eq set_StartJibunMain_eq set_StartJibunSub_eq
  set_EndJibunMain_eq set_EndJibunSub_eq

text \<open>The fields of a parsed road row and of a parsed land row.\<close>

lemma parse_road_fields:
  "ZipCode (parse_road row) = TrimSpace (row ! 0)
   \<and> SidoName (parse_road row) = TrimSpace (row ! 1)
   \<and> SidoNameEn (parse_road row) = TrimSpace (row ! 2)
   \<and> SigunguName (parse_road row) = TrimSpace (row ! 3)
   \<and> SigunguNameEn (parse_road row) = TrimSpace (row ! 4)
   \<and> EupmyeonName (parse_road row) = TrimSpace (row ! 5)
   \<and> EupmyeonNameEn (parse_road row) = TrimSpace (row ! 6)
   \<and> RoadName (parse_road row) = TrimSpace (row ! 7)
   \<and> RoadNameEn (parse_road row) = TrimSpace (row ! 8)
   \<and> IsUnderground (parse_road row) = (TrimSpace (row ! 9) = ''1'')
   \<and> StartBuildingMain (parse_road row) =
        (case Atoi (TrimSpace (row ! 10)) of Some val \<Rightarrow> val | None \<Rightarrow> 0)
   \<and> StartBuildingSub (parse_road row) =
        (if TrimSpace (row ! 11) = [] \<or> TrimSpace (row ! 11) = ''0'' then None
         else Atoi (TrimSpace (row ! 11)))
   \<and> EndBuildingMain (parse_road row) = Atoi (TrimSpace (row ! 12))
   \<and> EndBuildingSub (parse_road row) =
        (if TrimSpace (row ! 13) = [] \<or> TrimSpace (row ! 13) = ''0'' then None
         else Atoi (TrimSpace (row ! 13)))"
  unfolding parse_road_def Let_def road_steps
  by (simp add: option.case_eq_if)

lemma parse_land_fields:
  "ZipCode_land (parse_land row) = TrimSpace (row ! 0)
   \<and> SidoName_land (parse_land row) = TrimSpace (row ! 1)
   \<and> SidoNameEn_land (parse_land row) = TrimSpace (row ! 2)
   \<and> SigunguName_land (parse_land row) = TrimSpace (row ! 3)
   \<and> SigunguNameEn_land (parse_land row) = TrimSpace (row ! 4)
   \<and> EupmyeondongName_land (parse_land row) = TrimSpace (row ! 5)
   \<and> EupmyeondongNameEn_land (parse_land row) = TrimSpace (row ! 6)
   \<and> RiName_land (parse_land row) = TrimSpace (row ! 7)
   \<and> HaengjeongdongName_land (parse_land row) = TrimSpace (row ! 9)
   \<and> IsMountain_land (parse_land row) = (TrimSpace (row ! 8) = ''1'')
   \<and> StartJibunMain_land (parse_land row) =
        (case Atoi (TrimSpace (row ! 10)) of Some val \<Rightarrow> val | None \<Rightarrow> 0)
   \<and> StartJibunSub_land (parse_land row) =
        (if TrimSpace (row ! 11) = [] \<or> TrimSpace (row ! 11) = ''0'' then None
         else Atoi (TrimSpace (row ! 11)))
   \<and> EndJibunMain_land (parse_land row) = Atoi (TrimSpace (row ! 12))
   \<and> EndJibunSub_land (parse_land row) =
        (if TrimSpace (row ! 13) = [] \<or> TrimSpace (row ! 13) = ''0'' then None
         else Atoi (TrimSpace (row ! 13)))"
  unfolding parse_land_def Let_def land_steps
  by (simp add: option.case_eq_if)

text \<open>The reading loops, without their accumulators.\<close>

lemma parse_rows_eq:
  "parse_rows reads n roads errs =
     (roads @ map parse_road (usable_rows 15 reads), errs @ row_errors 15 n reads)"
  by (induction reads n roads errs rule: parse_rows.induct) (auto simp: usable_rows_def)

lemma parse_land_rows_eq:
  "parse_land_rows reads n lands errs =
     (lands @ map parse_land (usable_rows 14 reads), errs @ row_errors 14 n reads)"
  by (induction reads n lands errs rule: parse_land_rows.induct) (auto simp: usable_rows_def)

lemma row_errors_append:
  "row_errors k n (pre @ post) = row_errors k n pre @ row_errors k (n + int (length pre)) post"
  by (induction k n pre rule: row_errors.induct) (auto simp: add.assoc)

lemma usable_rows_append:
  "usable_rows k (pre @ post) = usable_rows k pre @ usable_rows k post"
  by (simp add: usable_rows_def)

lemma ParseFile_rows:
  "fs filePath = Inr f \<Longrightarrow> csv_reads f = Fields header # rest \<Longrightarrow>
     ParseFile fs filePath = (map parse_road (usable_rows 15 rest), None)"
  by (simp add: ParseFile_def parse_rows_eq)

lemma ParseLandFile_rows:
  "fs filePath = Inr f \<Longrightarrow> csv_reads f = Fields header # rest \<Longrightarrow>
     ParseLandFile fs filePath = (map parse_land (usable_rows 14 rest), None)"
  by (simp add: ParseLandFile_def parse_land_rows_eq)

text \<open>
  \<open>Atoi\<close> on decimal numerals: it reads the numeral of every number up to \<open>2^63 - 1\<close>,
  and with a minus sign up to \<open>2^63\<close>, and rejects the numerals beyond.
\<close>

lemma atoi_digits_append:
  "atoi_digits (xs @ ys) k =
     (case atoi_digits xs k of None \<Rightarrow> None | Some j \<Rightarrow> atoi_digits ys j)"
  by (induction xs arbitrary: k) auto

lemma digit_char:
  "d < 10 \<Longrightarrow> is_digit (char_of (48 + d)) \<and> int (of_char (char_of (48 + d))) - 48 = int d"
  by (simp add: is_digit_def)

lemma atoi_digits_decimal:
  "atoi_digits (decimal m) k = Some (k * 10 ^ length (decimal m) + int m)"
proof (induction m arbitrary: k rule: decimal.induct)
  case (1 m)
  show ?case
  proof (cases "m < 10")
    case True
    with digit_char [of m] show ?thesis
      by (subst (1 2) decimal.simps) simp
  next
    case False
    have d: "decimal m = decimal (m div 10) @ [char_of (48 + m mod 10)]"
      using False by (subst decimal.simps) simp
    have c: "is_digit (char_of (48 + m mod 10))"
      "int (of_char (char_of (48 + m mod 10))) - 48 = int (m mod 10)"
      using digit_char [of "m mod 10"] by simp_all
    have "int (m div 10) * 10 + int (m mod 10) = int m"
      by (metis mult.commute of_nat_add of_nat_mult of_nat_numeral mult_div_mod_eq)
    then show ?thesis
      unfolding d atoi_digits_append "1.IH" [OF False]
      using c by (simp add: algebra_simps)
  qed
qed

lemma decimal_first: "\<exists>c cs. decimal m = c # cs \<and> is_digit c"
proof (induction m rule: decimal.induct)
  case (1 m)
  show ?case
  proof (cases "m < 10")
    case True
    with digit_char [of m] show ?thesis
      by (subst decimal.simps) simp
  next
    case False
    with 1 obtain c cs where "decimal (m div 10) = c # cs" "is_digit c" by blast
    with False show ?thesis
      by (subst decimal.simps) simp
  qed
qed

lemma Atoi_decimal:
  "Atoi (decimal m) = (if int m > 2 ^ 63 - 1 then None else Some (int m))"
proof -
  from decimal_first [of m] obtain c cs where d: "decimal m = c # cs" "is_digit c" by blast
  then have "c \<noteq> CHR ''-''" "c \<noteq> CHR ''+''" by (auto simp: is_digit_def)
  with d atoi_digits_decimal [of m 0] show ?thesis
    by (simp add: Atoi_def Let_def)
qed

lemma Atoi_minus_decimal:
  "Atoi (CHR ''-'' # decimal m) = (if - int m < - (2 ^ 63) then None else Some (- int m))"
proof -
  from decimal_first [of m] obtain c cs where d: "decimal m = c # cs" by blast
  with atoi_digits_decimal [of m 0] show ?thesis
    by (simp add: Atoi_def Let_def)
qed

text \<open>What \<open>Atoi\<close> accepts is an optional sign followed by one or more digits.\<close>

lemma atoi_digits_Some: "atoi_digits ds k = Some j \<Longrightarrow> list_all is_digit ds"
  by (induction ds arbitrary: k) (auto split: if_splits)

lemma Atoi_shape:
  assumes "Atoi str = Some v"
  shows "\<exists>sign ds. str = sign @ ds \<and> (sign = [] \<or> sign = ''+'' \<or> sign = ''-'')
           \<and> ds \<noteq> [] \<and> list_all is_digit ds"
proof (cases str)
  case Nil
  with assms show ?thesis by (simp add: Atoi_def)
next
  case (Cons c cs)
  show ?thesis
  proof (cases "c = CHR ''-'' \<or> c = CHR ''+''")
    case True
    with assms Cons obtain j where "cs \<noteq> []" "atoi_digits cs 0 = Some j"
      by (auto simp: Atoi_def Let_def split: if_splits option.splits)
    with atoi_digits_Some have "cs \<noteq> []" "list_all is_digit cs" by auto
    with True Cons show ?thesis
      by (intro exI [of _ "[c]"] exI [of _ cs]) auto
  next
    case False
    with assms Cons obtain j where "atoi_digits str 0 = Some j"
      by (auto simp: Atoi_def Let_def split: if_splits option.splits)
    with atoi_digits_Some have "list_all is_digit str" by auto
    with Cons show ?thesis
      by (intro exI [of _ "[]"] exI [of _ str]) auto
  qed
qed

text \<open>
  C9 (as amended). For a road row of at least 15 fields and a land row of at least 14:
  the string fields are the columns with the white space around them removed; the flag
  is true exactly when its trimmed column is \<open>1\<close>; a main number is what \<open>Atoi\<close>
  reads from the trimmed column, zero included (the start number stays 0, the end number
  unset, when the column is empty or is not an integer in the range of Go's \<open>int\<close>); a
  sub-number is unset when the trimmed column is empty or \<open>0\<close>, and is otherwise what
  \<open>Atoi\<close> reads, unset when that is nothing. \<open>Atoi\<close> reads the decimal numerals
  from \<open>-2^63\<close> to \<open>2^63 - 1\<close> and none beyond. The records of a file are the parsed
  rows among those the reader returned without error and with enough fields, in order;
  every other row gives one structural error with its line number and no record; in
  particular a short row in the middle of a file gives one error and leaves the rows
  before and after it as they are.
\<close>

theorem C9_parsing:
  "(15 \<le> length row \<longrightarrow>
      ZipCode (parse_road row) = TrimSpace (row ! 0)
      \<and> SidoName (parse_road row) = TrimSpace (row ! 1)
      \<and> SidoNameEn (parse_road row) = TrimSpace (row ! 2)
      \<and> SigunguName (parse_road row) = TrimSpace (row ! 3)
      \<and> SigunguNameEn (parse_road row) = TrimSpace (row ! 4)
      \<and> EupmyeonName (parse_road row) = TrimSpace (row ! 5)
      \<and> EupmyeonNameEn (parse_road row) = TrimSpace (row ! 6)
      \<and> RoadName (parse_road row) = TrimSpace (row ! 7)
      \<and> RoadNameEn (parse_road row) = TrimSpace (row ! 8)
      \<and> IsUnderground (parse_road row) = (TrimSpace (row ! 9) = ''1'')
      \<and> StartBuildingMain (parse_road row) =
           (case Atoi (TrimSpace (row ! 10)) of Some val \<Rightarrow> val | None \<Rightarrow> 0)
      \<and> StartBuildingSub (parse_road row) =
           (if TrimSpace (row ! 11) = [] \<or> TrimSpace (row ! 11) = ''0'' then None
            else Atoi (TrimSpace (row ! 11)))
      \<and> EndBuildingMain (parse_road row) = Atoi (TrimSpace (row ! 12))
      \<and> EndBuildingSub (parse_road row) =
           (if TrimSpace (row ! 13) = [] \<or> TrimSpace (row ! 13) = ''0'' then None
            else Atoi (TrimSpace (row ! 13))))
   \<and> (14 \<le> length row \<longrightarrow>
      ZipCode_land (parse_land row) = TrimSpace (row ! 0)
      \<and> SidoName_land (parse_land row) = TrimSpace (row ! 1)
      \<and> SidoNameEn_land (parse_land row) = TrimSpace (row ! 2)
      \<and> SigunguName_land (parse_land row) = TrimSpace (row ! 3)
      \<and> SigunguNameEn_land (parse_land row) = TrimSpace (row ! 4)
      \<and> EupmyeondongName_land (parse_land row) = TrimSpace (row ! 5)
      \<and> EupmyeondongNameEn_land (parse_land row) = TrimSpace (row ! 6)
      \<and> RiName_land (parse_land row) = TrimSpace (row ! 7)
      \<and> HaengjeongdongName_land (parse_land row) = TrimSpace (row ! 9)
      \<and> IsMountain_land (parse_land row) = (TrimSpace (row ! 8) = ''1'')
      \<and> StartJibunMain_land (parse_land row) =
           (case Atoi (TrimSpace (row ! 10)) of Some val \<Rightarrow> val | None \<Rightarrow> 0)
      \<and> StartJibunSub_land (parse_land row) =
           (if TrimSpace (row ! 11) = [] \<or> TrimSpace (row ! 11) = ''0'' then None
            else Atoi (TrimSpace (row ! 11)))
      \<and> EndJibunMain_land (parse_land row) = Atoi (TrimSpace (row ! 12))
      \<and> EndJibunSub_land (parse_land row) =
           (if TrimSpace (row ! 13) = [] \<or> TrimSpace (row ! 13) = ''0'' then None
            else Atoi (TrimSpace (row ! 13))))
   \<and> Atoi ''0'' = Some 0
   \<and> (int m \<le> 2 ^ 63 - 1 \<longrightarrow> Atoi (decimal m) = Some (int m))
   \<and> (int m > 2 ^ 63 - 1 \<longrightarrow> Atoi (decimal m) = None)
   \<and> (int m \<le> 2 ^ 63 \<longrightarrow> Atoi (CHR ''-'' # decimal m) = Some (- int m))
   \<and> (Atoi str = Some v \<longrightarrow>
        (\<exists>sign ds. str = sign @ ds \<and> (sign = [] \<or> sign = ''+'' \<or> sign = ''-'')
           \<and> ds \<noteq> [] \<and> list_all is_digit ds))
   \<and> Atoi ''+7'' = Some 7
   \<and> Atoi ''007'' = Some 7
   \<and> Atoi ''-12'' = Some (- 12)
   \<and> Atoi ''1_000'' = None
   \<and> Atoi ''12a'' = None
   \<and> Atoi '' 5'' = None
   \<and> Atoi ''-'' = None
   \<and> Atoi [] = None
   \<and> is_digit (CHR ''0'') \<and> is_digit (CHR ''9'')
   \<and> \<not> is_digit (CHR ''/'') \<and> \<not> is_digit (CHR '':'')
   \<and> (\<exists>pre t post. spaces pre \<and> spaces post \<and> s = concat pre @ t @ concat post
         \<and> \<not> starts_with_space t \<and> \<not> ends_with_space t \<and> TrimSpace s = t)
   \<and> parse_rows reads n [] [] = (map parse_road (usable_rows 15 reads), row_errors 15 n reads)
   \<and> parse_land_rows reads n [] [] =
        (map parse_land (usable_rows 14 reads), row_errors 14 n reads)
   \<and> (fs filePath = Inr f \<and> csv_reads f = Fields header # rest \<longrightarrow>
        ParseFile fs filePath = (map parse_road (usable_rows 15 rest), None)
        \<and> ParseLandFile fs filePath = (map parse_land (usable_rows 14 rest), None))
   \<and> (length short < k \<longrightarrow>
        usable_rows k (pre @ Fields short # post) = usable_rows k pre @ usable_rows k post
        \<and> row_errors k n (pre @ Fields short # post) =
            row_errors k n pre @ TooFewFields (n + int (length pre)) (length short)
              # row_errors k (n + int (length pre) + 1) post)"
proof -
  have atoi0: "Atoi ''0'' = Some 0"
    by (simp add: Atoi_def is_digit_def)
  have files: "fs filePath = Inr f \<and> csv_reads f = Fields header # rest \<longrightarrow>
        ParseFile fs filePath = (map parse_road (usable_rows 15 rest), None)
        \<and> ParseLandFile fs filePath = (map parse_land (usable_rows 14 rest), None)"
    using ParseFile_rows ParseLandFile_rows by blast
  have short: "length short < k \<longrightarrow>
        usable_rows k (pre @ Fields short # post) = usable_rows k pre @ usable_rows k post
        \<and> row_errors k n (pre @ Fields short # post) =
            row_errors k n pre @ TooFewFields (n + int (length pre)) (length short)
              # row_errors k (n + int (length pre) + 1) post"
    by (simp add: row_errors_append usable_rows_def)
  have rows: "parse_rows reads n [] [] =
      (map parse_road (usable_rows 15 reads), row_errors 15 n reads)"
    and land_rows: "parse_land_rows reads n [] [] =
      (map parse_land (usable_rows 14 reads), row_errors 14 n reads)"
    by (simp_all add: parse_rows_eq parse_land_rows_eq)
  have a1: "int m \<le> 2 ^ 63 - 1 \<longrightarrow> Atoi (decimal m) = Some (int m)"
    and a2: "int m > 2 ^ 63 - 1 \<longrightarrow> Atoi (decimal m) = None"
    unfolding Atoi_decimal by simp_all
  have a3: "int m \<le> 2 ^ 63 \<longrightarrow> Atoi (CHR ''-'' # decimal m) = Some (- int m)"
    unfolding Atoi_minus_decimal by simp
  have trim: "\<exists>pre t post. spaces pre \<and> spaces post \<and> s = concat pre @ t @ concat post
         \<and> \<not> starts_with_space t \<and> \<not> ends_with_space t \<and> TrimSpace s = t"
    using TrimSpace_spec [of s] by blast
  have road: "15 \<le> length row \<longrightarrow>
      ZipCode (parse_road row) = TrimSpace (row ! 0)
      \<and> SidoName (parse_road row) = TrimSpace (row ! 1)
      \<and> SidoNameEn (parse_road row) = TrimSpace (row ! 2)
      \<and> SigunguName (parse_road row) = TrimSpace (row ! 3)
      \<and> SigunguNameEn (parse_road row) = TrimSpace (row ! 4)
      \<and> EupmyeonName (parse_road row) = TrimSpace (row ! 5)
      \<and> EupmyeonNameEn (parse_road row) = TrimSpace (row ! 6)
      \<and> RoadName (parse_road row) = TrimSpace (row ! 7)
      \<and> RoadNameEn (parse_road row) = TrimSpace (row ! 8)
      \<and> IsUnderground (parse_road row) = (TrimSpace (row ! 9) = ''1'')
      \<and> StartBuildingMain (parse_road row) =
           (case Atoi (TrimSpace (row ! 10)) of Some val \<Rightarrow> val | None \<Rightarrow> 0)
      \<and> StartBuildingSub (parse_road row) =
           (if TrimSpace (row ! 11) = [] \<or> TrimSpace (row ! 11) = ''0'' then None
            else Atoi (TrimSpace (row ! 11)))
      \<and> EndBuildingMain (parse_road row) = Atoi (TrimSpace (row ! 12))
      \<and> EndBuildingSub (parse_road row) =
           (if TrimSpace (row ! 13) = [] \<or> TrimSpace (row ! 13) = ''0'' then None
            else Atoi (TrimSpace (row ! 13)))"
    by (rule impI) (rule parse_road_fields)
  have land: "14 \<le> length row \<longrightarrow>
      ZipCode_land (parse_land row) = TrimSpace (row ! 0)
      \<and> SidoName_land (parse_land row) = TrimSpace (row ! 1)
      \<and> SidoNameEn_land (parse_land row) = TrimSpace (row ! 2)
      \<and> SigunguName_land (parse_land row) = TrimSpace (row ! 3)
      \<and> SigunguNameEn_land (parse_land row) = TrimSpace (row ! 4)
      \<and> EupmyeondongName_land (parse_land row) = TrimSpace (row ! 5)
      \<and> EupmyeondongNameEn_land (parse_land row) = TrimSpace (row ! 6)
      \<and> RiName_land (parse_land row) = TrimSpace (row ! 7)
      \<and> HaengjeongdongName_land (parse_land row) = TrimSpace (row ! 9)
      \<and> IsMountain_land (parse_land row) = (TrimSpace (row ! 8) = ''1'')
      \<and> StartJibunMain_land (parse_land row) =
           (case Atoi (TrimSpace (row ! 10)) of Some val \<Rightarrow> val | None \<Rightarrow> 0)
      \<and> StartJibunSub_land (parse_land row) =
           (if TrimSpace (row ! 11) = [] \<or> TrimSpace (row ! 11) = ''0'' then None
            else Atoi (TrimSpace (row ! 11)))
      \<and> EndJibunMain_land (parse_land row) = Atoi (TrimSpace (row ! 12))
      \<and> EndJibunSub_land (parse_land row) =
           (if TrimSpace (row ! 13) = [] \<or> TrimSpace (row ! 13) = ''0'' then None
            else Atoi (TrimSpace (row ! 13)))"
    by (rule impI) (rule parse_land_fields)
  have shape: "Atoi str = Some v \<longrightarrow>
        (\<exists>sign ds. str = sign @ ds \<and> (sign = [] \<or> sign = ''+'' \<or> sign = ''-'')
           \<and> ds \<noteq> [] \<and> list_all is_digit ds)"
    using Atoi_shape by blast
  have e1: "Atoi ''+7'' = Some 7" and e2: "Atoi ''007'' = Some 7"
    and e3: "Atoi ''-12'' = Some (- 12)" and e4: "Atoi ''1_000'' = None"
    and e5: "Atoi ''12a'' = None" and e6: "Atoi '' 5'' = None"
    and e7: "Atoi ''-'' = None" and e8: "Atoi [] = None"
    by (simp_all add: Atoi_def is_digit_def)
  have d1: "is_digit (CHR ''0'')" and d2: "is_digit (CHR ''9'')"
    and d3: "\<not> is_digit (CHR ''/'')" and d4: "\<not> is_digit (CHR '':'')"
    by (simp_all add: is_digit_def)
  show ?thesis
    by (intro conjI)
       (rule road land atoi0 a1 a2 a3 shape e1 e2 e3 e4 e5 e6 e7 e8 d1 d2 d3 d4 trim rows
          land_rows files short)+
qed


text \<open>The definitions that the evaluation of a concrete parse unfolds.\<close>

lemmas parse_defs = TrimSpace_def is_space_rune_def space_runes_def Atoi_def is_digit_def
  good_row_def good_land_row_def usable_rows_def sample_fs_def mixed_file_def narrow_file_def
  road_header_def

theorem C9_parsing_witness:
  "15 \<le> length good_row
   \<and> RoadName (parse_road good_row) = ''Samyang-ro''
   \<and> IsUnderground (parse_road good_row)
   \<and> StartBuildingMain (parse_road good_row) = 0
   \<and> StartBuildingSub (parse_road good_row) = None
   \<and> EndBuildingMain (parse_road good_row) = Some 999
   \<and> EndBuildingSub (parse_road good_row) = Some 2
   \<and> 14 \<le> length good_land_row
   \<and> RiName_land (parse_land good_land_row) = ''Mojeon-ri''
   \<and> \<not> IsMountain_land (parse_land good_land_row)
   \<and> StartJibunMain_land (parse_land good_land_row) = 2
   \<and> StartJibunSub_land (parse_land good_land_row) = Some 3
   \<and> EndJibunMain_land (parse_land good_land_row) = Some 878
   \<and> EndJibunSub_land (parse_land good_land_row) = None
   \<and> ParseFile sample_fs ''mixed.txt'' = ([parse_road good_row], None)
   \<and> row_errors 15 1 [Fields good_row, Fields [''01000'', ''Seoul'', ''Seoul'', ''Gangbuk-gu''],
                       Fields good_row] = [TooFewFields 2 4]
   \<and> usable_rows 15 [Fields good_row, Fields [''01000'', ''Seoul'', ''Seoul'', ''Gangbuk-gu''],
                       Fields good_row] = [good_row, good_row]"
proof -
  note road_inst = C9_parsing [where row = good_row and m = 0 and s = "[]" and reads = "[]"
      and str = "''0''" and v = 0
      and n = 1 and fs = sample_fs and filePath = "''mixed.txt''" and f = mixed_file
      and header = road_header
      and rest = "[Fields good_row, ReadError (External ''wrong number of fields'')]"
      and short = "[''01000'', ''Seoul'', ''Seoul'', ''Gangbuk-gu'']" and k = 15
      and pre = "[Fields good_row]" and post = "[Fields good_row]"]
  note land_inst = C9_parsing [where row = good_land_row and m = 0 and s = "[]"
      and str = "''0''" and v = 0
      and reads = "[]" and n = 1 and fs = sample_fs and filePath = "''mixed.txt''"
      and f = mixed_file and header = road_header
      and rest = "[Fields good_row, ReadError (External ''wrong number of fields'')]"
      and short = "[]" and k = 15 and pre = "[]" and post = "[]"]
  have len: "15 \<le> length good_row" and len_land: "14 \<le> length good_land_row"
    by (simp_all add: good_row_def good_land_row_def)
  have opened: "sample_fs ''mixed.txt'' = Inr mixed_file
      \<and> csv_reads mixed_file =
          Fields road_header # [Fields good_row, ReadError (External ''wrong number of fields'')]"
    and sh: "length [''01000'', ''Seoul'', ''Seoul'', ''Gangbuk-gu''] < (15::nat)"
    by (simp_all add: sample_fs_def mixed_file_def)
  note road = road_inst [THEN conjunct1, THEN mp, OF len]
  note land = land_inst [THEN conjunct2, THEN conjunct1, THEN mp, OF len_land]
  note rest = road_inst
    [THEN conjunct2, THEN conjunct2, THEN conjunct2, THEN conjunct2,
     THEN conjunct2, THEN conjunct2, THEN conjunct2, THEN conjunct2,
     THEN conjunct2, THEN conjunct2, THEN conjunct2, THEN conjunct2,
     THEN conjunct2, THEN conjunct2, THEN conjunct2, THEN conjunct2,
     THEN conjunct2, THEN conjunct2, THEN conjunct2, THEN conjunct2,
     THEN conjunct2, THEN conjunct2]
  note files = rest [THEN conjunct1, THEN mp, OF opened, THEN conjunct1]
  note short = rest [THEN conjunct2, THEN mp, OF sh]
  have u: "usable_rows 15 [Fields good_row, ReadError (External ''wrong number of fields'')]
      = [good_row]"
    by (simp_all add: usable_rows_def good_row_def)
  show ?thesis
    using len len_land road land short
    unfolding files u
    by (simp add: TrimSpace_def is_space_rune_def space_runes_def Atoi_def is_digit_def
        good_row_def good_land_row_def usable_rows_def)
qed

text \<open>
  The claim as written fails: \<open>9223372036854775808\<close> (\<open>2^63\<close>) is an integer value
  other than \<open>0\<close>, and in a sub-number column it leaves the field unset; in the column
  of the start number it leaves the number 0.
\<close>

theorem C9_counterexample:
  "15 \<le> length (good_row[11 := ''9223372036854775808''])
   \<and> TrimSpace (good_row[11 := ''9223372036854775808''] ! 11) = ''9223372036854775808''
   \<and> StartBuildingSub (parse_road (good_row[11 := ''9223372036854775808''])) = None
   \<and> StartBuildingMain (parse_road (good_row[10 := ''9223372036854775808''])) = 0
   \<and> Atoi ''9223372036854775807'' = Some 9223372036854775807"
  using parse_road_fields [of "good_row[11 := ''9223372036854775808'']"]
    parse_road_fields [of "good_row[10 := ''9223372036854775808'']"]
  by (simp add: parse_defs)

section \<open>The import run\<close>

text \<open>The outcome of a run, the pieces of a list, and the batch loops as folds over the pieces.\<close>

lemma import_batches_Nil:
  "import_batches repo [] n pf 0 t e calls db = (t, e, calls, db)"
  by (subst import_batches.simps) simp

lemma import_land_batches_Nil:
  "import_land_batches repo [] n pf 0 t e calls db = (t, e, calls, db)"
  by (subst import_land_batches.simps) simp

lemma countDataLines_error:
  "snd (countDataLines fs filePath) \<noteq> None \<longleftrightarrow>
     (\<exists>e. fs filePath = Inl e) \<or> (\<exists>f e. fs filePath = Inr f \<and> scan_err f = Some e)"
  by (auto simp: countDataLines_def Let_def split: sum.splits option.splits)

lemma ImportFromFile_unreadable:
  assumes "snd (countDataLines fs filePath) = Some err"
  shows "ImportFromFile repo fs elapsed filePath batchSize progressFn db =
           (None,
            Some (case fst (TruncateRoad repo db) of
                    Some terr \<Rightarrow> Wrapf ''failed to truncate existing data'' terr
                  | None \<Rightarrow> Wrapf ''failed to count lines'' err),
            [], snd (TruncateRoad repo db))"
proof -
  obtain k where c: "countDataLines fs filePath = (k, Some err)"
    using assms by (cases "countDataLines fs filePath") auto
  obtain terr db1 where t: "TruncateRoad repo db = (terr, db1)"
    by (cases "TruncateRoad repo db") auto
  show ?thesis
    by (cases terr) (simp_all add: ImportFromFile_def c t)
qed


lemma ImportLandFromFile_unreadable:
  assumes "snd (countDataLines fs filePath) = Some err"
  shows "ImportLandFromFile repo fs elapsed filePath batchSize progressFn db =
           (None,
            Some (case fst (TruncateLand repo db) of
                    Some terr \<Rightarrow> Wrapf ''failed to truncate existing data'' terr
                  | None \<Rightarrow> Wrapf ''failed to count lines'' err),
            [], snd (TruncateLand repo db))"
proof -
  obtain k where c: "countDataLines fs filePath = (k, Some err)"
    using assms by (cases "countDataLines fs filePath") auto
  obtain terr db1 where t: "TruncateLand repo db = (terr, db1)"
    by (cases "TruncateLand repo db") auto
  show ?thesis
    by (cases terr) (simp_all add: ImportLandFromFile_def c t)
qed

lemma ParseFile_error:
  "fs filePath = Inr f \<Longrightarrow>
     snd (ParseFile fs filePath) \<noteq> None \<longleftrightarrow> (\<forall>header rest. csv_reads f \<noteq> Fields header # rest)"
  by (auto simp: ParseFile_def split: list.splits read_result.splits)

lemma ParseLandFile_error:
  "fs filePath = Inr f \<Longrightarrow>
     snd (ParseLandFile fs filePath) \<noteq> None \<longleftrightarrow>
       (\<forall>header rest. csv_reads f \<noteq> Fields header # rest)"
  by (auto simp: ParseLandFile_def split: list.splits read_result.splits)

lemma ImportFromFile_outcome:
  assumes "countDataLines fs filePath = (k, None)"
  shows "(fst (ImportFromFile repo fs elapsed filePath batchSize progressFn db) = None
            \<longleftrightarrow> fst (snd (ImportFromFile repo fs elapsed filePath batchSize progressFn db)) \<noteq> None)
       \<and> (fst (snd (ImportFromFile repo fs elapsed filePath batchSize progressFn db)) \<noteq> None
            \<longleftrightarrow> fst (TruncateRoad repo db) \<noteq> None \<or> snd (ParseFile fs filePath) \<noteq> None)"
proof -
  obtain terr db1 where t: "TruncateRoad repo db = (terr, db1)"
    by (cases "TruncateRoad repo db") auto
  obtain roads perr where p: "ParseFile fs filePath = (roads, perr)"
    by (cases "ParseFile fs filePath") auto
  obtain tc ec calls db2 where
    b: "import_batches repo roads (nat (if batchSize \<le> 0 then 1000 else batchSize))
          progressFn 0 0 0 [] db1 = (tc, ec, calls, db2)"
    by (metis prod_cases4)
  show ?thesis
    using b by (cases terr; cases perr) (simp_all add: ImportFromFile_def assms t p Let_def)
qed


lemma chunks_Nil: "chunks n [] = []"
  by (subst chunks.simps) simp

lemma chunks_step: "xs \<noteq> [] \<Longrightarrow> 0 < n \<Longrightarrow> chunks n xs = take n xs # chunks n (drop n xs)"
  by (subst chunks.simps) simp

lemma concat_chunks: "0 < n \<Longrightarrow> concat (chunks n xs) = xs"
proof (induction "length xs" arbitrary: xs rule: less_induct)
  case less
  show ?case
  proof (cases "xs = []")
    case True
    then show ?thesis by (simp add: chunks_Nil)
  next
    case False
    with less.prems have "length (drop n xs) < length xs" by simp
    from less.hyps [OF this less.prems] False less.prems show ?thesis
      by (simp add: chunks_step)
  qed
qed

lemma chunks_empty: "xs = [] \<or> n = 0 \<Longrightarrow> chunks n xs = []"
  by (subst chunks.simps) simp

lemma chunks_lengths:
  "b \<in> set (chunks n xs) \<Longrightarrow> 0 < length b \<and> length b \<le> n"
proof (induction "length xs" arbitrary: xs rule: less_induct)
  case less
  show ?case
  proof (cases "xs = [] \<or> n = 0")
    case True
    from chunks_empty [OF True] less.prems show ?thesis by simp
  next
    case False
    then have st: "chunks n xs = take n xs # chunks n (drop n xs)"
      by (intro chunks_step) auto
    from False have l: "length (drop n xs) < length xs" by simp
    from less.prems have "b = take n xs \<or> b \<in> set (chunks n (drop n xs))"
      unfolding st by simp
    then show ?thesis
    proof
      assume "b = take n xs"
      with False show ?thesis by auto
    next
      assume "b \<in> set (chunks n (drop n xs))"
      from less.hyps [OF l this] show ?thesis .
    qed
  qed
qed

lemma chunks_full:
  "b \<in> set (butlast (chunks n xs)) \<Longrightarrow> length b = n"
proof (induction "length xs" arbitrary: xs rule: less_induct)
  case less
  show ?case
  proof (cases "xs = [] \<or> n = 0")
    case True
    from chunks_empty [OF True] less.prems show ?thesis by simp
  next
    case False
    then have st: "chunks n xs = take n xs # chunks n (drop n xs)"
      by (intro chunks_step) auto
    from False have l: "length (drop n xs) < length xs" by simp
    show ?thesis
    proof (cases "drop n xs = []")
      case True
      from chunks_empty [of "drop n xs" n] True have "chunks n xs = [take n xs]"
        unfolding st by simp
      with less.prems show ?thesis by simp
    next
      case d: False
      from d False have "chunks n (drop n xs) = take n (drop n xs) # chunks n (drop n (drop n xs))"
        by (intro chunks_step) auto
      then have ne: "chunks n (drop n xs) \<noteq> []" by simp
      from less.prems have "b \<in> set (take n xs # butlast (chunks n (drop n xs)))"
        unfolding st using ne by simp
      then have "b = take n xs \<or> b \<in> set (butlast (chunks n (drop n xs)))" by simp
      then show ?thesis
      proof
        assume "b = take n xs"
        with d show ?thesis by simp
      next
        assume "b \<in> set (butlast (chunks n (drop n xs)))"
        from less.hyps [OF l this] show ?thesis .
      qed
    qed
  qed
qed

lemma persist_batches_total:
  "persist_batches repo batches successes errors db = (s', e', db') \<Longrightarrow>
     s' + e' = successes + errors + int (length (concat batches))"
proof (induction batches arbitrary: successes errors db)
  case Nil
  then show ?case by simp
next
  case (Cons b batches)
  obtain err db1 where u: "BatchUpsert repo b db = (err, db1)"
    by (cases "BatchUpsert repo b db") auto
  show ?case
  proof (cases err)
    case None
    with Cons.prems u
    have "persist_batches repo batches (successes + int (length b)) errors db1 = (s', e', db')"
      by simp
    from Cons.IH [OF this] show ?thesis by simp
  next
    case (Some x)
    with Cons.prems u
    have "persist_batches repo batches successes (errors + int (length b)) db1 = (s', e', db')"
      by simp
    from Cons.IH [OF this] show ?thesis by simp
  qed
qed

lemma import_batches_persist:
  assumes "0 < n"
  shows "(case import_batches repo roads n pf i t e calls db of
            (t', e', calls', db') \<Rightarrow> (t', e', db')) =
         persist_batches repo (chunks n (drop i roads)) t e db"
proof (induction "length roads - i" arbitrary: i t e calls db rule: less_induct)
  case less
  show ?case
  proof (cases "i < length roads")
    case False
    then show ?thesis
      by (subst import_batches.simps) (simp add: chunks_Nil)
  next
    case True
    let ?batch = "take n (drop i roads)"
    have batch: "take ((if i + n > length roads then length roads else i + n) - i)
                   (drop i roads) = ?batch"
      by auto
    have ch: "chunks n (drop i roads) = ?batch # chunks n (drop (i + n) roads)"
      using True assms by (simp add: chunks_step add.commute)
    have m: "length roads - (i + n) < length roads - i"
      using True assms by arith
    obtain err db1 where u: "BatchUpsert repo ?batch db = (err, db1)"
      by (cases "BatchUpsert repo ?batch db") auto
    let ?t' = "if fst (err, db1) \<noteq> None then t else t + int (length ?batch)"
    let ?e' = "if fst (err, db1) \<noteq> None then e + int (length ?batch) else e"
    let ?c' = "if pf then calls @ [(int i + int (length ?batch), int (length roads))] else calls"
    have step: "import_batches repo roads n pf i t e calls db =
                  import_batches repo roads n pf (i + n) ?t' ?e' ?c' db1"
      by (subst import_batches.simps)
         (simp only: True assms batch Let_def u snd_conv simp_thms if_True)
    have "(case import_batches repo roads n pf i t e calls db of
             (t', e', calls', db') \<Rightarrow> (t', e', db')) =
          persist_batches repo (chunks n (drop (i + n) roads)) ?t' ?e' db1"
      unfolding step by (rule less.hyps [OF m])
    also have "\<dots> = persist_batches repo (chunks n (drop i roads)) t e db"
      unfolding ch by (cases err) (simp_all add: u)
    finally show ?thesis .
  qed
qed


lemma ImportLandFromFile_outcome:
  assumes "countDataLines fs filePath = (k, None)"
  shows "(fst (ImportLandFromFile repo fs elapsed filePath batchSize progressFn db) = None
            \<longleftrightarrow> fst (snd (ImportLandFromFile repo fs elapsed filePath batchSize progressFn db)) \<noteq> None)
       \<and> (fst (snd (ImportLandFromFile repo fs elapsed filePath batchSize progressFn db)) \<noteq> None
            \<longleftrightarrow> fst (TruncateLand repo db) \<noteq> None \<or> snd (ParseLandFile fs filePath) \<noteq> None)"
proof -
  obtain terr db1 where t: "TruncateLand repo db = (terr, db1)"
    by (cases "TruncateLand repo db") auto
  obtain lands perr where p: "ParseLandFile fs filePath = (lands, perr)"
    by (cases "ParseLandFile fs filePath") auto
  obtain tc ec calls db2 where
    b: "import_land_batches repo lands (nat (if batchSize \<le> 0 then 1000 else batchSize))
          progressFn 0 0 0 [] db1 = (tc, ec, calls, db2)"
    by (metis prod_cases4)
  show ?thesis
    using b by (cases terr; cases perr) (simp_all add: ImportLandFromFile_def assms t p Let_def)
qed



lemma persist_land_batches_total:
  "persist_land_batches repo batches successes errors db = (s', e', db') \<Longrightarrow>
     s' + e' = successes + errors + int (length (concat batches))"
proof (induction batches arbitrary: successes errors db)
  case Nil
  then show ?case by simp
next
  case (Cons b batches)
  obtain err db1 where u: "BatchUpsertLand repo b db = (err, db1)"
    by (cases "BatchUpsertLand repo b db") auto
  show ?case
  proof (cases err)
    case None
    with Cons.prems u
    have "persist_land_batches repo batches (successes + int (length b)) errors db1 = (s', e', db')"
      by simp
    from Cons.IH [OF this] show ?thesis by simp
  next
    case (Some x)
    with Cons.prems u
    have "persist_land_batches repo batches successes (errors + int (length b)) db1 = (s', e', db')"
      by simp
    from Cons.IH [OF this] show ?thesis by simp
  qed
qed


lemma import_land_batches_persist:
  assumes "0 < n"
  shows "(case import_land_batches repo lands n pf i t e calls db of
            (t', e', calls', db') \<Rightarrow> (t', e', db')) =
         persist_land_batches repo (chunks n (drop i lands)) t e db"
proof (induction "length lands - i" arbitrary: i t e calls db rule: less_induct)
  case less
  show ?case
  proof (cases "i < length lands")
    case False
    then show ?thesis
      by (subst import_land_batches.simps) (simp add: chunks_Nil)
  next
    case True
    let ?batch = "take n (drop i lands)"
    have batch: "take ((if i + n > length lands then length lands else i + n) - i)
                   (drop i lands) = ?batch"
      by auto
    have ch: "chunks n (drop i lands) = ?batch # chunks n (drop (i + n) lands)"
      using True assms by (simp add: chunks_step add.commute)
    have m: "length lands - (i + n) < length lands - i"
      using True assms by arith
    obtain err db1 where u: "BatchUpsertLand repo ?batch db = (err, db1)"
      by (cases "BatchUpsertLand repo ?batch db") auto
    let ?t' = "if fst (err, db1) \<noteq> None then t else t + int (length ?batch)"
    let ?e' = "if fst (err, db1) \<noteq> None then e + int (length ?batch) else e"
    let ?c' = "if pf then calls @ [(int i + int (length ?batch), int (length lands))] else calls"
    have step: "import_land_batches repo lands n pf i t e calls db =
                  import_land_batches repo lands n pf (i + n) ?t' ?e' ?c' db1"
      by (subst import_land_batches.simps)
         (simp only: True assms batch Let_def u snd_conv simp_thms if_True)
    have "(case import_land_batches repo lands n pf i t e calls db of
             (t', e', calls', db') \<Rightarrow> (t', e', db')) =
          persist_land_batches repo (chunks n (drop (i + n) lands)) ?t' ?e' db1"
      unfolding step by (rule less.hyps [OF m])
    also have "\<dots> = persist_land_batches repo (chunks n (drop i lands)) t e db"
      unfolding ch by (cases err) (simp_all add: u)
    finally show ?thesis .
  qed
qed



section \<open>Counting lines\<close>

text \<open>The count is the number of lines after the first.\<close>

lemma count_lines_value:
  "count_lines ls firstLine k =
     k + int (length ls) - (if firstLine \<and> ls \<noteq> [] then 1 else 0)"
  by (induction ls arbitrary: firstLine k) auto

lemma countDataLines_value:
  "fs filePath = Inr f \<Longrightarrow> scan_err f = None \<Longrightarrow>
     countDataLines fs filePath = (int (length (scan_lines f) - 1), None)"
  by (cases "scan_lines f") (simp_all add: countDataLines_def count_lines_value)

lemma countDataLines_zero:
  "countDataLines fs filePath = (0, None) \<Longrightarrow> fs filePath = Inr f \<Longrightarrow>
     scan_err f = None \<and> length (scan_lines f) \<le> 1"
  by (cases "scan_lines f")
     (auto simp: countDataLines_def count_lines_value Let_def split: option.splits)


section \<open>A file that cannot be read\<close>

text \<open>The truncation writes no road record.\<close>

lemma spy_truncate_log:
  "snd (snd (TruncateRoad (spy repo) (db, []))) = []"
  "snd (snd (TruncateLand (spy repo) (db, []))) = []"
  by (simp_all add: spy_def split: prod.splits)

text \<open>
  C2 (as amended). The line count fails exactly when the path does not open or the
  scanner ends with an error. In that case \<open>ImportFromFile\<close> (and its land analogue)
  returns no result and an error, and hands no record to a write of the store; but the
  truncation has been carried out before the file was looked at, so the database is
  left as the truncation leaves it (and the error is the truncation's when that failed).
\<close>

theorem C2_unreadable_file:
  "(snd (countDataLines fs filePath) \<noteq> None \<longleftrightarrow>
      (\<exists>e. fs filePath = Inl e) \<or> (\<exists>f e. fs filePath = Inr f \<and> scan_err f = Some e))
   \<and> (snd (countDataLines fs filePath) = Some err \<longrightarrow>
        ImportFromFile repo fs elapsed filePath batchSize progressFn db =
          (None,
           Some (case fst (TruncateRoad repo db) of
                   Some terr \<Rightarrow> Wrapf ''failed to truncate existing data'' terr
                 | None \<Rightarrow> Wrapf ''failed to count lines'' err),
           [], snd (TruncateRoad repo db))
        \<and> ImportLandFromFile repo fs elapsed filePath batchSize progressFn db =
          (None,
           Some (case fst (TruncateLand repo db) of
                   Some terr \<Rightarrow> Wrapf ''failed to truncate existing data'' terr
                 | None \<Rightarrow> Wrapf ''failed to count lines'' err),
           [], snd (TruncateLand repo db))
        \<and> snd (snd (snd (snd (ImportFromFile (spy repo) fs elapsed filePath batchSize
                                progressFn (db, []))))) = []
        \<and> snd (snd (snd (snd (ImportLandFromFile (spy repo) fs elapsed filePath batchSize
                                progressFn (db, []))))) = [])"
  using countDataLines_error [of fs filePath]
  by (simp add: ImportFromFile_unreadable ImportLandFromFile_unreadable spy_truncate_log)

text \<open>The definitions that the evaluation of a concrete import unfolds.\<close>

lemmas import_defs = ImportFromFile_def ImportLandFromFile_def countDataLines_def
  ParseFile_def ParseLandFile_def sample_fs_def header_only_file_def zero_byte_file_def
  mixed_file_def narrow_file_def three_rows_file_def mem_repo_def refusing_repo_def
  one_row_tables_def empty_tables_def road_header_def

theorem C2_unreadable_file_witness:
  "snd (countDataLines sample_fs ''missing.txt'') = Some (External ''no such file or directory'')
   \<and> ImportFromFile mem_repo sample_fs ''1ms'' ''missing.txt'' 100 False one_row_tables =
       (None, Some (Wrapf ''failed to count lines'' (External ''no such file or directory'')), [],
        one_row_tables\<lparr>road_rows := [], road_seq := 0\<rparr>)
   \<and> ImportLandFromFile mem_repo sample_fs ''1ms'' ''missing.txt'' 100 False one_row_tables =
       (None, Some (Wrapf ''failed to count lines'' (External ''no such file or directory'')), [],
        one_row_tables\<lparr>land_rows := [], land_seq := 0\<rparr>)"
  using C2_unreadable_file [where fs = sample_fs and filePath = "''missing.txt''"
      and err = "External ''no such file or directory''" and repo = mem_repo
      and elapsed = "''1ms''" and batchSize = 100 and progressFn = False and db = one_row_tables]
  by (simp add: countDataLines_def sample_fs_def mem_repo_def)

text \<open>
  The claim as written fails: importing a path that does not exist into a table that
  holds one row returns the error and leaves the table empty.
\<close>

theorem C2_counterexample:
  "road_rows one_row_tables = [(sample_road ''01000'' ''010'' ''Samyang-ro'')\<lparr>ID := 1\<rparr>]
   \<and> ImportFromFile mem_repo sample_fs ''1ms'' ''missing.txt'' 100 False one_row_tables =
       (None, Some (Wrapf ''failed to count lines'' (External ''no such file or directory'')), [],
        \<lparr>road_rows = [], road_seq = 0, land_rows = [], land_seq = 0\<rparr>)"
  by (simp add: import_defs)



section \<open>A file without data lines\<close>

lemma ImportFromFile_header_only:
  assumes "countDataLines fs filePath = (0, None)" "fs filePath = Inr f"
    "csv_reads f = [Fields header]" "fst (TruncateRoad repo db) = None"
  shows "ImportFromFile repo fs elapsed filePath batchSize progressFn db =
           (Some \<lparr>TotalCount = 0, ErrorCount = 0, Duration = elapsed\<rparr>, None, [],
            snd (TruncateRoad repo db))"
proof -
  obtain db1 where t: "TruncateRoad repo db = (None, db1)"
    using assms(4) by (cases "TruncateRoad repo db") auto
  have p: "ParseFile fs filePath = ([], None)"
    using assms(2,3) by (simp add: ParseFile_def)
  show ?thesis
    by (simp add: ImportFromFile_def assms(1) t p import_batches_Nil)
qed

lemma ImportLandFromFile_header_only:
  assumes "countDataLines fs filePath = (0, None)" "fs filePath = Inr f"
    "csv_reads f = [Fields header]" "fst (TruncateLand repo db) = None"
  shows "ImportLandFromFile repo fs elapsed filePath batchSize progressFn db =
           (Some \<lparr>TotalCount = 0, ErrorCount = 0, Duration = elapsed\<rparr>, None, [],
            snd (TruncateLand repo db))"
proof -
  obtain db1 where t: "TruncateLand repo db = (None, db1)"
    using assms(4) by (cases "TruncateLand repo db") auto
  have p: "ParseLandFile fs filePath = ([], None)"
    using assms(2,3) by (simp add: ParseLandFile_def)
  show ?thesis
    by (simp add: ImportLandFromFile_def assms(1) t p import_land_batches_Nil)
qed

text \<open>
  C1 (as amended). A file whose count of data lines is zero is one that the scanner
  reads without error and that has at most one line. On such a file \<open>ImportFromFile\<close>
  (and its land analogue) returns either an error and no result or a result and no error. It
  returns an error exactly when the truncation fails or the first read of the file does
  not give a header row (as for a file of zero bytes, where the read gives end of file).
  On a file that holds a header row and nothing else it returns a result, with no
  successes and no errors.
\<close>

theorem C1_no_data_lines:
  assumes "countDataLines fs filePath = (0, None)" and "fs filePath = Inr f"
  shows "scan_err f = None \<and> length (scan_lines f) \<le> 1
       \<and> (fst (ImportFromFile repo fs elapsed filePath batchSize progressFn db) = None
            \<longleftrightarrow> fst (snd (ImportFromFile repo fs elapsed filePath batchSize progressFn db)) \<noteq> None)
       \<and> (fst (snd (ImportFromFile repo fs elapsed filePath batchSize progressFn db)) \<noteq> None
            \<longleftrightarrow> fst (TruncateRoad repo db) \<noteq> None
                \<or> (\<forall>header rest. csv_reads f \<noteq> Fields header # rest))
       \<and> (fst (TruncateRoad repo db) = None \<and> csv_reads f = [Fields header] \<longrightarrow>
            ImportFromFile repo fs elapsed filePath batchSize progressFn db =
              (Some \<lparr>TotalCount = 0, ErrorCount = 0, Duration = elapsed\<rparr>, None, [],
               snd (TruncateRoad repo db)))
       \<and> (fst (ImportLandFromFile repo fs elapsed filePath batchSize progressFn db) = None
            \<longleftrightarrow> fst (snd (ImportLandFromFile repo fs elapsed filePath batchSize progressFn db))
                  \<noteq> None)
       \<and> (fst (snd (ImportLandFromFile repo fs elapsed filePath batchSize progressFn db)) \<noteq> None
            \<longleftrightarrow> fst (TruncateLand repo db) \<noteq> None
                \<or> (\<forall>header rest. csv_reads f \<noteq> Fields header # rest))
       \<and> (fst (TruncateLand repo db) = None \<and> csv_reads f = [Fields header] \<longrightarrow>
            ImportLandFromFile repo fs elapsed filePath batchSize progressFn db =
              (Some \<lparr>TotalCount = 0, ErrorCount = 0, Duration = elapsed\<rparr>, None, [],
               snd (TruncateLand repo db)))"
  using countDataLines_zero [OF assms]
    ImportFromFile_outcome [OF assms(1), of repo elapsed batchSize progressFn db]
    ImportLandFromFile_outcome [OF assms(1), of repo elapsed batchSize progressFn db]
    ParseFile_error [where fs = fs and filePath = filePath, OF assms(2)]
    ParseLandFile_error [where fs = fs and filePath = filePath, OF assms(2)]
    ImportFromFile_header_only [OF assms, of header repo db elapsed batchSize progressFn]
    ImportLandFromFile_header_only [OF assms, of header repo db elapsed batchSize progressFn]
  by blast

text \<open>At the file that holds only a header, and at the file of zero bytes.\<close>

theorem C1_no_data_lines_witness:
  "countDataLines sample_fs ''header.txt'' = (0, None)
   \<and> ImportFromFile mem_repo sample_fs ''1ms'' ''header.txt'' 100 False one_row_tables =
       (Some \<lparr>TotalCount = 0, ErrorCount = 0, Duration = ''1ms''\<rparr>, None, [],
        one_row_tables\<lparr>road_rows := [], road_seq := 0\<rparr>)
   \<and> ImportLandFromFile mem_repo sample_fs ''1ms'' ''header.txt'' 100 False one_row_tables =
       (Some \<lparr>TotalCount = 0, ErrorCount = 0, Duration = ''1ms''\<rparr>, None, [],
        one_row_tables\<lparr>land_rows := [], land_seq := 0\<rparr>)
   \<and> countDataLines sample_fs ''empty.txt'' = (0, None)
   \<and> fst (ImportFromFile mem_repo sample_fs ''1ms'' ''empty.txt'' 100 False one_row_tables) = None
   \<and> fst (snd (ImportFromFile mem_repo sample_fs ''1ms'' ''empty.txt'' 100 False one_row_tables))
       \<noteq> None"
proof -
  have h: "countDataLines sample_fs ''header.txt'' = (0, None)"
    and e: "countDataLines sample_fs ''empty.txt'' = (0, None)"
    by (simp_all add: countDataLines_def sample_fs_def header_only_file_def zero_byte_file_def)
  have fh: "sample_fs ''header.txt'' = Inr header_only_file"
    and fe: "sample_fs ''empty.txt'' = Inr zero_byte_file"
    by (simp_all add: sample_fs_def)
  show ?thesis
    using h e
      C1_no_data_lines [OF h fh, where repo = mem_repo and db = one_row_tables
        and header = road_header and elapsed = "''1ms''" and batchSize = 100
        and progressFn = False]
      C1_no_data_lines [OF e fe, where repo = mem_repo and db = one_row_tables
        and elapsed = "''1ms''" and batchSize = 100 and progressFn = False]
    by (simp add: mem_repo_def header_only_file_def zero_byte_file_def)
qed

text \<open>
  The claim as written fails: the import of a file that holds only a header line, whose
  count of data lines is zero, returns a result of zero records and no error.
\<close>

theorem C1_counterexample:
  "countDataLines sample_fs ''header.txt'' = (0, None)
   \<and> ImportFromFile mem_repo sample_fs ''1ms'' ''header.txt'' 100 False empty_tables =
       (Some \<lparr>TotalCount = 0, ErrorCount = 0, Duration = ''1ms''\<rparr>, None, [], empty_tables)"
  by (simp add: import_defs import_batches_Nil)



section \<open>Batches and counts\<close>

text \<open>The result of a run that reaches the batch loop, for roads and for land.\<close>

lemma ImportFromFile_result:
  assumes t: "TruncateRoad repo db = (None, emptied)"
    and c: "countDataLines fs filePath = (totalLines, None)"
    and p: "ParseFile fs filePath = (roads, None)"
    and n: "n = nat (if batchSize \<le> 0 then 1000 else batchSize)"
  shows "(let P = persist_batches repo (chunks n roads) 0 0 emptied in
            fst (ImportFromFile repo fs elapsed filePath batchSize progressFn db) =
              Some \<lparr>TotalCount = fst P,
                    ErrorCount = fst (snd P) + (totalLines - int (length roads)),
                    Duration = elapsed\<rparr>
            \<and> fst (snd (ImportFromFile repo fs elapsed filePath batchSize progressFn db)) = None
            \<and> snd (snd (snd (ImportFromFile repo fs elapsed filePath batchSize progressFn db)))
                = snd (snd P)
            \<and> fst P + fst (snd P) = int (length roads))
         \<and> concat (chunks n roads) = roads
         \<and> (\<forall>b \<in> set (chunks n roads). 0 < length b \<and> length b \<le> n)
         \<and> (\<forall>b \<in> set (butlast (chunks n roads)). length b = n)"
proof -
  have pos: "0 < n" using n by auto
  obtain tc ec calls db2 where
    b: "import_batches repo roads n progressFn 0 0 0 [] emptied = (tc, ec, calls, db2)"
    by (metis prod_cases4)
  from import_batches_persist [OF pos, of repo roads progressFn 0 0 0 "[]" emptied] b
  have P: "persist_batches repo (chunks n roads) 0 0 emptied = (tc, ec, db2)" by simp
  from persist_batches_total [OF P] concat_chunks [OF pos, of roads]
  have sum: "tc + ec = int (length roads)" by simp
  have imp: "ImportFromFile repo fs elapsed filePath batchSize progressFn db =
      (Some \<lparr>TotalCount = tc, ErrorCount = ec + (totalLines - int (length roads)),
             Duration = elapsed\<rparr>, None, calls, db2)"
    using b by (simp add: ImportFromFile_def t c p n Let_def)
  have l1: "\<forall>b \<in> set (chunks n roads). 0 < length b \<and> length b \<le> n"
    using chunks_lengths by blast
  have l2: "\<forall>b \<in> set (butlast (chunks n roads)). length b = n"
    using chunks_full by blast
  have main: "let P = persist_batches repo (chunks n roads) 0 0 emptied in
            fst (ImportFromFile repo fs elapsed filePath batchSize progressFn db) =
              Some \<lparr>TotalCount = fst P,
                    ErrorCount = fst (snd P) + (totalLines - int (length roads)),
                    Duration = elapsed\<rparr>
            \<and> fst (snd (ImportFromFile repo fs elapsed filePath batchSize progressFn db)) = None
            \<and> snd (snd (snd (ImportFromFile repo fs elapsed filePath batchSize progressFn db)))
                = snd (snd P)
            \<and> fst P + fst (snd P) = int (length roads)"
    unfolding Let_def imp P using sum by simp
  from main concat_chunks [OF pos, of roads] l1 l2 show ?thesis by blast
qed


lemma ImportLandFromFile_result:
  assumes t: "TruncateLand repo db = (None, emptied)"
    and c: "countDataLines fs filePath = (totalLines, None)"
    and p: "ParseLandFile fs filePath = (lands, None)"
    and n: "n = nat (if batchSize \<le> 0 then 1000 else batchSize)"
  shows "(let P = persist_land_batches repo (chunks n lands) 0 0 emptied in
            fst (ImportLandFromFile repo fs elapsed filePath batchSize progressFn db) =
              Some \<lparr>TotalCount = fst P,
                    ErrorCount = fst (snd P) + (totalLines - int (length lands)),
                    Duration = elapsed\<rparr>
            \<and> fst (snd (ImportLandFromFile repo fs elapsed filePath batchSize progressFn db)) = None
            \<and> snd (snd (snd (ImportLandFromFile repo fs elapsed filePath batchSize progressFn db)))
                = snd (snd P)
            \<and> fst P + fst (snd P) = int (length lands))
         \<and> concat (chunks n lands) = lands
         \<and> (\<forall>b \<in> set (chunks n lands). 0 < length b \<and> length b \<le> n)
         \<and> (\<forall>b \<in> set (butlast (chunks n lands)). length b = n)"
proof -
  have pos: "0 < n" using n by auto
  obtain tc ec calls db2 where
    b: "import_land_batches repo lands n progressFn 0 0 0 [] emptied = (tc, ec, calls, db2)"
    by (metis prod_cases4)
  from import_land_batches_persist [OF pos, of repo lands progressFn 0 0 0 "[]" emptied] b
  have P: "persist_land_batches repo (chunks n lands) 0 0 emptied = (tc, ec, db2)" by simp
  from persist_land_batches_total [OF P] concat_chunks [OF pos, of lands]
  have sum: "tc + ec = int (length lands)" by simp
  have imp: "ImportLandFromFile repo fs elapsed filePath batchSize progressFn db =
      (Some \<lparr>TotalCount = tc, ErrorCount = ec + (totalLines - int (length lands)),
             Duration = elapsed\<rparr>, None, calls, db2)"
    using b by (simp add: ImportLandFromFile_def t c p n Let_def)
  have l1: "\<forall>b \<in> set (chunks n lands). 0 < length b \<and> length b \<le> n"
    using chunks_lengths by blast
  have l2: "\<forall>b \<in> set (butlast (chunks n lands)). length b = n"
    using chunks_full by blast
  have main: "let P = persist_land_batches repo (chunks n lands) 0 0 emptied in
            fst (ImportLandFromFile repo fs elapsed filePath batchSize progressFn db) =
              Some \<lparr>TotalCount = fst P,
                    ErrorCount = fst (snd P) + (totalLines - int (length lands)),
                    Duration = elapsed\<rparr>
            \<and> fst (snd (ImportLandFromFile repo fs elapsed filePath batchSize progressFn db)) = None
            \<and> snd (snd (snd (ImportLandFromFile repo fs elapsed filePath batchSize progressFn db)))
                = snd (snd P)
            \<and> fst P + fst (snd P) = int (length lands)"
    unfolding Let_def imp P using sum by simp
  from main concat_chunks [OF pos, of lands] l1 l2 show ?thesis by blast
qed


text \<open>
  C8. When the truncation, the line count and the parse succeed, the import cuts the
  parsed records into consecutive pieces of \<open>batchSize\<close> records (of 1000 when the
  caller gave a size of zero or less), the last piece possibly shorter, and persists
  each piece with one call, in order, on the database state the previous call left. A
  piece whose call fails adds all of its records to the error count, a piece whose call
  succeeds adds all of them to the success count (this is \<open>persist_batches\<close>), so the
  two counts add up to the number of parsed records. The result carries the success
  count, the error count of the pieces plus the counted data lines (the lines of the file
  after the first) minus the parsed records, and the elapsed time; there is no error, and the database is the one the last
  call left. The same holds for the land import. (The loop's index never exceeds the
  number of records plus the batch size, so Go's 64-bit \<open>int\<close> behaves as the unbounded
  numbers here.)
\<close>

theorem C8_batches:
  "(TruncateRoad repo db = (None, emptied) \<and> countDataLines fs filePath = (totalLines, None)
      \<and> ParseFile fs filePath = (roads, None)
      \<and> n = nat (if batchSize \<le> 0 then 1000 else batchSize) \<longrightarrow>
      (let P = persist_batches repo (chunks n roads) 0 0 emptied in
         fst (ImportFromFile repo fs elapsed filePath batchSize progressFn db) =
           Some \<lparr>TotalCount = fst P,
                 ErrorCount = fst (snd P) + (totalLines - int (length roads)),
                 Duration = elapsed\<rparr>
         \<and> fst (snd (ImportFromFile repo fs elapsed filePath batchSize progressFn db)) = None
         \<and> snd (snd (snd (ImportFromFile repo fs elapsed filePath batchSize progressFn db)))
             = snd (snd P)
         \<and> fst P + fst (snd P) = int (length roads))
      \<and> concat (chunks n roads) = roads
      \<and> (\<forall>b \<in> set (chunks n roads). 0 < length b \<and> length b \<le> n)
      \<and> (\<forall>b \<in> set (butlast (chunks n roads)). length b = n))
   \<and> (TruncateLand repo db = (None, emptied) \<and> countDataLines fs filePath = (totalLines, None)
      \<and> ParseLandFile fs filePath = (lands, None)
      \<and> n = nat (if batchSize \<le> 0 then 1000 else batchSize) \<longrightarrow>
      (let P = persist_land_batches repo (chunks n lands) 0 0 emptied in
         fst (ImportLandFromFile repo fs elapsed filePath batchSize progressFn db) =
           Some \<lparr>TotalCount = fst P,
                 ErrorCount = fst (snd P) + (totalLines - int (length lands)),
                 Duration = elapsed\<rparr>
         \<and> fst (snd (ImportLandFromFile repo fs elapsed filePath batchSize progressFn db)) = None
         \<and> snd (snd (snd (ImportLandFromFile repo fs elapsed filePath batchSize progressFn db)))
             = snd (snd P)
         \<and> fst P + fst (snd P) = int (length lands))
      \<and> concat (chunks n lands) = lands
      \<and> (\<forall>b \<in> set (chunks n lands). 0 < length b \<and> length b \<le> n)
      \<and> (\<forall>b \<in> set (butlast (chunks n lands)). length b = n))
   \<and> (fs filePath = Inr f \<and> scan_err f = None \<longrightarrow>
        countDataLines fs filePath = (int (length (scan_lines f) - 1), None))"
  using ImportFromFile_result [of repo db emptied fs filePath totalLines roads n batchSize
      elapsed progressFn]
    ImportLandFromFile_result [of repo db emptied fs filePath totalLines lands n batchSize
      elapsed progressFn]
    countDataLines_value [of fs filePath f]
  by blast



text \<open>
  A batch with a valid record in it: refused by the refusing store, accepted by the
  in-memory one. The three sample rows are valid.
\<close>

lemma batch_validate_nonempty:
  "validate r = None \<Longrightarrow> r \<in> set b \<Longrightarrow> fst (batch_validate b 0 [] []) \<noteq> []"
  unfolding batch_validate_valid by (auto simp: filter_empty_conv)

lemma BatchUpsert_refusing:
  assumes "validate r = None" "r \<in> set b"
  shows "BatchUpsert refusing_repo b db = (Some (External ''connection refused''), db)"
proof -
  obtain v e where bv: "batch_validate b 0 [] [] = (v, e)"
    by (cases "batch_validate b 0 [] []") auto
  with batch_validate_nonempty [OF assms] have "v \<noteq> []" by simp
  then show ?thesis
    by (simp add: BatchUpsert_def bv refusing_repo_def)
qed

lemma BatchUpsert_mem:
  assumes "validate r = None" "r \<in> set b"
  shows "fst (BatchUpsert mem_repo b db) = None"
proof -
  obtain v e where bv: "batch_validate b 0 [] [] = (v, e)"
    by (cases "batch_validate b 0 [] []") auto
  with batch_validate_nonempty [OF assms] have "v \<noteq> []" by simp
  then show ?thesis
    by (simp add: BatchUpsert_def bv mem_repo_def)
qed

lemma valid_good_rows:
  "validate (parse_road good_row) = None"
  "validate (parse_road (good_row[0 := ''01002''])) = None"
  "validate (parse_road (good_row[0 := ''01003''])) = None"
  using parse_road_fields [of good_row] parse_road_fields [of "good_row[0 := ''01002'']"]
    parse_road_fields [of "good_row[0 := ''01003'']"]
  by (simp_all add: validate_None parse_defs)

text \<open>
  At three rows in batches of two with a store that refuses every batch, and at the file
  with one good and one bad row with the default batch size.
\<close>

theorem C8_batches_witness:
  "fst (ImportFromFile refusing_repo sample_fs ''1ms'' ''three.txt'' 2 False one_row_tables) =
     Some \<lparr>TotalCount = 0, ErrorCount = 3, Duration = ''1ms''\<rparr>
   \<and> fst (ImportFromFile mem_repo sample_fs ''1ms'' ''mixed.txt'' 0 False one_row_tables) =
     Some \<lparr>TotalCount = 1, ErrorCount = 1, Duration = ''1ms''\<rparr>
   \<and> chunks 2 [parse_road good_row, parse_road (good_row[0 := ''01002'']),
                parse_road (good_row[0 := ''01003''])] =
       [[parse_road good_row, parse_road (good_row[0 := ''01002''])],
        [parse_road (good_row[0 := ''01003''])]]"
proof -
  let ?r1 = "parse_road good_row"
  let ?r2 = "parse_road (good_row[0 := ''01002''])"
  let ?r3 = "parse_road (good_row[0 := ''01003''])"
  let ?db1 = "one_row_tables\<lparr>road_rows := [], road_seq := 0\<rparr>"
  have t: "TruncateRoad refusing_repo one_row_tables = (None, ?db1)"
    and t': "TruncateRoad mem_repo one_row_tables = (None, ?db1)"
    by (simp_all add: refusing_repo_def mem_repo_def)
  have c: "countDataLines sample_fs ''three.txt'' = (3, None)"
    and c': "countDataLines sample_fs ''mixed.txt'' = (2, None)"
    by (simp_all add: countDataLines_def sample_fs_def three_rows_file_def mixed_file_def)
  have p: "ParseFile sample_fs ''three.txt'' = ([?r1, ?r2, ?r3], None)"
    by (rule trans [OF ParseFile_rows [of sample_fs _ three_rows_file road_header
            "[Fields good_row, Fields (good_row[0 := ''01002'']),
              Fields (good_row[0 := ''01003''])]"]])
       (simp_all add: sample_fs_def three_rows_file_def usable_rows_def good_row_def)
  have p': "ParseFile sample_fs ''mixed.txt'' = ([?r1], None)"
    by (rule trans [OF ParseFile_rows [of sample_fs _ mixed_file road_header
            "[Fields good_row, ReadError (External ''wrong number of fields'')]"]])
       (simp_all add: sample_fs_def mixed_file_def usable_rows_def good_row_def)
  have ch: "chunks 2 [?r1, ?r2, ?r3] = [[?r1, ?r2], [?r3]]"
    by (simp add: chunks_step chunks_empty)
  have ch': "chunks 1000 [?r1] = [[?r1]]"
    by (simp add: chunks_step chunks_empty)
  have P: "persist_batches refusing_repo [[?r1, ?r2], [?r3]] 0 0 ?db1 = (0, 3, ?db1)"
    by (simp add: BatchUpsert_refusing [OF valid_good_rows(1)]
        BatchUpsert_refusing [OF valid_good_rows(3)])
  obtain db2 where u: "BatchUpsert mem_repo [?r1] ?db1 = (None, db2)"
    using BatchUpsert_mem [OF valid_good_rows(1), of "[?r1]" ?db1]
    by (cases "BatchUpsert mem_repo [?r1] ?db1") auto
  have P': "persist_batches mem_repo [[?r1]] 0 0 ?db1 = (1, 0, db2)"
    by (simp add: u)
  show ?thesis
    using C8_batches [where repo = refusing_repo and db = one_row_tables and emptied = "?db1"
        and fs = sample_fs and filePath = "''three.txt''" and totalLines = 3
        and roads = "[?r1, ?r2, ?r3]" and n = 2 and batchSize = 2 and elapsed = "''1ms''"
        and progressFn = False and lands = "[]" and f = three_rows_file]
      C8_batches [where repo = mem_repo and db = one_row_tables and emptied = "?db1"
        and fs = sample_fs and filePath = "''mixed.txt''" and totalLines = 2
        and roads = "[?r1]" and n = 1000 and batchSize = 0 and elapsed = "''1ms''"
        and progressFn = False and lands = "[]" and f = mixed_file]
    unfolding t t' c c' p p' ch ch' P P'
    by (simp add: Let_def)
qed


end
